theory Spec2Isabelle
  imports Complex_Main "HOL-Library.Sublist"
begin

section \<open>Python values, errors and slices\<close>

text \<open>
  Every \<^verbatim>\<open>raise\<close> of the Python source is a value \<open>Inl e\<close> of a sum type
  \<open>py_error + 'a\<close>; a \<^verbatim>\<open>try ... except Exception\<close> block is a case
  distinction on that sum. \<open>DimensionMismatchError\<close> is the error named by the
  specification of the similarity scorer; no statement of the source constructs it.
\<close>

datatype py_error =
    ValueError | IndexError | KeyError | TypeError | AttributeError
  | ConnectionError | Timeout | JSONDecodeError | APIError | OperationalError
  | DimensionMismatchError

subsection \<open>Floats\<close>

text \<open>
  A Python float, like a \<^verbatim>\<open>numpy.float64\<close>, is an IEEE 754 double: a finite number,
  an infinity or NaN. Finite results are kept exact here (the rounding to 53 bits, the
  underflow to zero and the sign of zero are not modelled); what is modelled is the
  overflow of a finite result beyond the largest double to an infinity, the arithmetic
  of the infinities, and NaN, which every operation passes on and every comparison
  answers with \<^verbatim>\<open>False\<close>. No float operation of the source raises.
\<close>

datatype pyfloat = Fin real | PInf | NInf | NaN

definition max_double :: real where
  "max_double = (2 ^ 53 - 1) * 2 ^ 971"

definition overflow :: "real \<Rightarrow> pyfloat" where
  "overflow x =
     (if max_double < x then PInf else if x < - max_double then NInf else Fin x)"

definition signed_inf :: "bool \<Rightarrow> pyfloat" where
  "signed_inf positive = (if positive then PInf else NInf)"

fun fadd :: "pyfloat \<Rightarrow> pyfloat \<Rightarrow> pyfloat" where
  "fadd NaN b = NaN"
| "fadd a NaN = NaN"
| "fadd PInf NInf = NaN"
| "fadd NInf PInf = NaN"
| "fadd PInf b = PInf"
| "fadd a PInf = PInf"
| "fadd NInf b = NInf"
| "fadd a NInf = NInf"
| "fadd (Fin x) (Fin y) = overflow (x + y)"

fun fneg :: "pyfloat \<Rightarrow> pyfloat" where
  "fneg (Fin x) = Fin (- x)"
| "fneg PInf = NInf"
| "fneg NInf = PInf"
| "fneg NaN = NaN"

definition fsub :: "pyfloat \<Rightarrow> pyfloat \<Rightarrow> pyfloat" where
  "fsub a b = fadd a (fneg b)"

fun fmul :: "pyfloat \<Rightarrow> pyfloat \<Rightarrow> pyfloat" where
  "fmul NaN b = NaN"
| "fmul a NaN = NaN"
| "fmul (Fin x) (Fin y) = overflow (x * y)"
| "fmul (Fin x) PInf = (if x = 0 then NaN else signed_inf (0 < x))"
| "fmul (Fin x) NInf = (if x = 0 then NaN else signed_inf (x < 0))"
| "fmul PInf (Fin y) = (if y = 0 then NaN else signed_inf (0 < y))"
| "fmul NInf (Fin y) = (if y = 0 then NaN else signed_inf (y < 0))"
| "fmul PInf PInf = PInf"
| "fmul NInf NInf = PInf"
| "fmul PInf NInf = NInf"
| "fmul NInf PInf = NInf"

text \<open>
  Division. A zero divisor, which numpy answers with an infinity or NaN and a Python
  float with \<^verbatim>\<open>ZeroDivisionError\<close>, is answered as numpy does; it does not occur
  in the source, where every divisor is the length of a non-empty list or a product of
  norms that has passed the test \<^verbatim>\<open>norm_product == 0\<close>.
\<close>

fun fdiv :: "pyfloat \<Rightarrow> pyfloat \<Rightarrow> pyfloat" where
  "fdiv NaN b = NaN"
| "fdiv a NaN = NaN"
| "fdiv (Fin x) (Fin y) =
     (if y = 0 then (if x = 0 then NaN else signed_inf (0 < x)) else overflow (x / y))"
| "fdiv (Fin x) b = Fin 0"
| "fdiv PInf (Fin y) = signed_inf (0 \<le> y)"
| "fdiv NInf (Fin y) = signed_inf (y < 0)"
| "fdiv a b = NaN"

fun fsqrt :: "pyfloat \<Rightarrow> pyfloat" where
  "fsqrt (Fin x) = (if x < 0 then NaN else Fin (sqrt x))"
| "fsqrt PInf = PInf"
| "fsqrt NInf = NaN"
| "fsqrt NaN = NaN"

text \<open>The comparisons \<^verbatim>\<open><\<close>, \<^verbatim>\<open><=\<close> and \<^verbatim>\<open>==\<close>.\<close>

fun flt :: "pyfloat \<Rightarrow> pyfloat \<Rightarrow> bool" where
  "flt NaN b = False"
| "flt a NaN = False"
| "flt PInf b = False"
| "flt a NInf = False"
| "flt NInf b = True"
| "flt a PInf = True"
| "flt (Fin x) (Fin y) = (x < y)"

fun fle :: "pyfloat \<Rightarrow> pyfloat \<Rightarrow> bool" where
  "fle NaN b = False"
| "fle a NaN = False"
| "fle NInf b = True"
| "fle a PInf = True"
| "fle (Fin x) (Fin y) = (x \<le> y)"
| "fle a b = False"

fun feq :: "pyfloat \<Rightarrow> pyfloat \<Rightarrow> bool" where
  "feq NaN b = False"
| "feq a b = (a = b)"

text \<open>
  The builtins \<^verbatim>\<open>max(a, b)\<close> and \<^verbatim>\<open>min(a, b)\<close> keep their first argument
  unless the second is greater (smaller), and \<^verbatim>\<open>sum\<close> adds from left to right,
  starting from 0.
\<close>

definition py_max :: "pyfloat \<Rightarrow> pyfloat \<Rightarrow> pyfloat" where
  "py_max a b = (if flt a b then b else a)"

definition py_min :: "pyfloat \<Rightarrow> pyfloat \<Rightarrow> pyfloat" where
  "py_min a b = (if flt b a then b else a)"

definition py_sum :: "pyfloat list \<Rightarrow> pyfloat" where
  "py_sum xs = foldl fadd (Fin 0) xs"

subsection \<open>Slices, strings and sorting\<close>

text \<open>
  \<^verbatim>\<open>xs[start:stop]\<close> with integer bounds: a negative bound counts from the end,
  and both bounds are clipped to the list.
\<close>

definition py_slice :: "'a list \<Rightarrow> int \<Rightarrow> int \<Rightarrow> 'a list" where
  "py_slice xs start stop =
     (let n = int (length xs);
          s = (if start < 0 then max (start + n) 0 else min start n);
          e = (if stop < 0 then max (stop + n) 0 else min stop n)
      in take (nat (e - s)) (drop (nat s) xs))"

text \<open>\<^verbatim>\<open>str(i)\<close> for a non-negative integer.\<close>

fun str_nat :: "nat \<Rightarrow> string" where
  "str_nat n =
     (if n < 10 then [char_of (48 + n)]
      else str_nat (n div 10) @ [char_of (48 + n mod 10)])"

text \<open>\<^verbatim>\<open>"\n".join(parts)\<close>.\<close>

fun join_lines :: "string list \<Rightarrow> string" where
  "join_lines [] = []"
| "join_lines [p] = p"
| "join_lines (p # q # ps) = p @ [CHR 0x0A] @ join_lines (q # ps)"

text \<open>
  \<^verbatim>\<open>xs.sort(key=lambda x: x['similarity'], reverse=True)\<close> on a list of
  dictionaries, each modelled as a pair whose second component is the value under
  \<^verbatim>\<open>'similarity'\<close>. Python's sort is stable, also with \<^verbatim>\<open>reverse=True\<close>
  (items with equal keys keep their order), and it compares keys with \<^verbatim>\<open><\<close> only.
  On keys without NaN every such sort returns the same list, the one this insertion sort
  builds. A NaN key does not reach a sort of the source: each list that is sorted has
  passed the filter \<^verbatim>\<open>similarity >= threshold\<close>, which no NaN passes.
\<close>

fun insert_desc :: "('a \<times> pyfloat) \<Rightarrow> ('a \<times> pyfloat) list \<Rightarrow> ('a \<times> pyfloat) list" where
  "insert_desc x [] = [x]"
| "insert_desc x (y # ys) =
     (if flt (snd x) (snd y) then y # insert_desc x ys else x # y # ys)"

definition sort_by_similarity :: "('a \<times> pyfloat) list \<Rightarrow> ('a \<times> pyfloat) list" where
  "sort_by_similarity xs = foldr insert_desc xs []"


section \<open>backend/app/core/config.py\<close>

record settings =
  SIMILARITY_THRESHOLD :: pyfloat
  MAX_RETRIEVED_DOCS :: int
  CONFIDENCE_THRESHOLD :: pyfloat
  ESCALATION_THRESHOLD :: pyfloat

definition default_settings :: settings where
  "default_settings =
     \<lparr>SIMILARITY_THRESHOLD = Fin (7 / 10), MAX_RETRIEVED_DOCS = 5,
      CONFIDENCE_THRESHOLD = Fin (8 / 10), ESCALATION_THRESHOLD = Fin (5 / 10)\<rparr>"


section \<open>backend/app/rag/embeddings.py: EmbeddingService\<close>

text \<open>
  An embedding is a list of floats (\<^verbatim>\<open>List[float]\<close>), which \<^verbatim>\<open>np.array\<close> turns
  into a one-dimensional array of doubles; so are the embeddings
  \<^verbatim>\<open>generate_embedding\<close> makes. A list of Python integers, which numpy would hold
  and multiply as 64-bit integers, is not an embedding.
\<close>

type_synonym embedding = "pyfloat list"

text \<open>
  The sum of the products of the components. The order in which numpy adds them is not
  fixed by its interface; here they are added from left to right.
\<close>

definition dot_sum :: "embedding \<Rightarrow> embedding \<Rightarrow> pyfloat" where
  "dot_sum vec1 vec2 =
     foldl (\<lambda>acc (x, y). fadd acc (fmul x y)) (Fin 0) (zip vec1 vec2)"

text \<open>
  \<^verbatim>\<open>np.dot\<close> of two one-dimensional arrays raises \<^verbatim>\<open>ValueError\<close> when their
  shapes differ; \<^verbatim>\<open>np.linalg.norm\<close> of a one-dimensional array is the square root
  of its dot product with itself.
\<close>

definition np_dot :: "embedding \<Rightarrow> embedding \<Rightarrow> py_error + pyfloat" where
  "np_dot vec1 vec2 =
     (if length vec1 = length vec2 then Inr (dot_sum vec1 vec2) else Inl ValueError)"

definition np_linalg_norm :: "embedding \<Rightarrow> pyfloat" where
  "np_linalg_norm vec = fsqrt (dot_sum vec vec)"

text \<open>The body of the \<^verbatim>\<open>try\<close> block of \<^verbatim>\<open>calculate_similarity\<close>.\<close>

definition calculate_similarity_try :: "embedding \<Rightarrow> embedding \<Rightarrow> py_error + pyfloat" where
  "calculate_similarity_try embedding1 embedding2 =
     (case np_dot embedding1 embedding2 of
        Inl e \<Rightarrow> Inl e
      | Inr dot_product \<Rightarrow>
          (let norm_product = fmul (np_linalg_norm embedding1) (np_linalg_norm embedding2)
           in if feq norm_product (Fin 0) then Inr (Fin 0)
              else Inr (fdiv dot_product norm_product)))"

text \<open>
  \<^verbatim>\<open>except Exception as e: logger.error(...); return 0.0\<close>: whatever the body
  raises is logged and replaced by the value \<open>0.0\<close>.
\<close>

definition calculate_similarity :: "embedding \<Rightarrow> embedding \<Rightarrow> py_error + pyfloat" where
  "calculate_similarity embedding1 embedding2 =
     (case calculate_similarity_try embedding1 embedding2 of
        Inl e \<Rightarrow> Inr (Fin 0)
      | Inr similarity \<Rightarrow> Inr similarity)"

text \<open>
  The loop \<^verbatim>\<open>for x in items: similarity = calculate_similarity(query, vec(x));
  if similarity >= threshold: similarities.append({..., 'similarity': similarity})\<close>,
  which the source writes three times (in \<^verbatim>\<open>find_most_similar\<close>,
  \<^verbatim>\<open>find_similar_tickets\<close> and \<^verbatim>\<open>find_relevant_knowledge\<close>) with a different
  item type and a different way \<open>vec\<close> to reach the item's vector. The appended
  dictionary is the pair of the item and its similarity.
\<close>

fun similarity_loop ::
  "pyfloat \<Rightarrow> embedding \<Rightarrow> ('a \<Rightarrow> embedding) \<Rightarrow> 'a list \<Rightarrow> ('a \<times> pyfloat) list
    \<Rightarrow> py_error + ('a \<times> pyfloat) list" where
  "similarity_loop threshold query vec [] similarities = Inr similarities"
| "similarity_loop threshold query vec (x # rest) similarities =
     (case calculate_similarity query (vec x) of
        Inl e \<Rightarrow> Inl e
      | Inr similarity \<Rightarrow>
          similarity_loop threshold query vec rest
            (if fle threshold similarity then similarities @ [(x, similarity)]
             else similarities))"

text \<open>
  \<^verbatim>\<open>find_most_similar(query_embedding, candidate_embeddings, threshold=None)\<close>.
  The items are the pairs \<open>(i, candidate)\<close> of \<^verbatim>\<open>enumerate\<close>; the result holds
  \<open>((i, candidate), similarity)\<close> for the dictionary
  \<^verbatim>\<open>{'index': i, 'similarity': similarity}\<close>. The result is cut to
  \<^verbatim>\<open>settings.MAX_RETRIEVED_DOCS\<close> items by a slice.
\<close>

definition find_most_similar ::
  "settings \<Rightarrow> embedding \<Rightarrow> embedding list \<Rightarrow> pyfloat option
    \<Rightarrow> py_error + ((nat \<times> embedding) \<times> pyfloat) list" where
  "find_most_similar st query_embedding candidate_embeddings threshold =
     (let threshold' = (case threshold of None \<Rightarrow> SIMILARITY_THRESHOLD st | Some t \<Rightarrow> t)
      in case similarity_loop threshold' query_embedding snd
                (enumerate 0 candidate_embeddings) [] of
           Inl e \<Rightarrow> Inl e
         | Inr similarities \<Rightarrow>
             Inr (py_slice (sort_by_similarity similarities) 0 (MAX_RETRIEVED_DOCS st)))"

text \<open>
  \<^verbatim>\<open>generate_embedding(text)\<close>. The model is \<open>None\<close> when it is not loaded,
  else the function \<^verbatim>\<open>model.encode\<close>, which may raise. The last argument and the
  second component of the result are the texts \<^verbatim>\<open>generate_embedding\<close> has been
  called with so far, in call order: the trace of the calls to the embedding provider.
\<close>

definition generate_embedding ::
  "(string \<Rightarrow> py_error + embedding) option \<Rightarrow> string \<Rightarrow> string list
    \<Rightarrow> (py_error + embedding) \<times> string list" where
  "generate_embedding model text calls =
     (case model of
        None \<Rightarrow> (Inl ValueError, calls @ [text])
      | Some encode \<Rightarrow> (encode text, calls @ [text]))"


section \<open>backend/app/db/models.py: the tables the retriever reads\<close>

datatype ticket_status = OPEN | IN_PROGRESS | RESOLVED | CLOSED | ESCALATED
datatype ticket_priority = LOW | MEDIUM | HIGH | CRITICAL
datatype ticket_category = TECHNICAL | BILLING | ACCOUNT | PRODUCT | GENERAL

fun status_value :: "ticket_status \<Rightarrow> string" where
  "status_value OPEN = ''open''"
| "status_value IN_PROGRESS = ''in_progress''"
| "status_value RESOLVED = ''resolved''"
| "status_value CLOSED = ''closed''"
| "status_value ESCALATED = ''escalated''"

fun priority_value :: "ticket_priority \<Rightarrow> string" where
  "priority_value LOW = ''low''"
| "priority_value MEDIUM = ''medium''"
| "priority_value HIGH = ''high''"
| "priority_value CRITICAL = ''critical''"

fun category_value :: "ticket_category \<Rightarrow> string" where
  "category_value TECHNICAL = ''technical''"
| "category_value BILLING = ''billing''"
| "category_value ACCOUNT = ''account''"
| "category_value PRODUCT = ''product''"
| "category_value GENERAL = ''general''"

text \<open>
  The columns the retrieval and generation code reads. Nullable columns are options.
\<close>

record ticket =
  t_id :: int
  t_title :: string
  t_description :: string
  t_status :: "ticket_status option"
  t_priority :: "ticket_priority option"
  t_category :: "ticket_category option"

record knowledge =
  k_id :: int
  k_title :: string
  k_content :: string
  k_category :: "string option"
  k_is_active :: "bool option"

record ticket_embedding =
  te_ticket_id :: "int option"
  te_embedding_vector :: embedding

record knowledge_embedding =
  ke_knowledge_id :: "int option"
  ke_embedding_vector :: embedding

text \<open>
  The database session: the rows of the four tables in the order the queries return
  them, and \<open>fault\<close>, the error every query raises when the database is unavailable.
\<close>

record session =
  tickets :: "ticket list"
  ticket_embeddings :: "ticket_embedding list"
  knowledge_base :: "knowledge list"
  knowledge_embeddings :: "knowledge_embedding list"
  fault :: "py_error option"


section \<open>backend/app/rag/retriever.py: TicketRetriever\<close>

text \<open>Truthiness of an optional integer or string argument.\<close>

fun truthy_int :: "int option \<Rightarrow> bool" where
  "truthy_int None = False"
| "truthy_int (Some i) = (i \<noteq> 0)"

fun truthy_str :: "string option \<Rightarrow> bool" where
  "truthy_str None = False"
| "truthy_str (Some s) = (s \<noteq> [])"

text \<open>
  \<^verbatim>\<open>db.query(TicketEmbedding).join(Ticket)\<close>, filtered by
  \<^verbatim>\<open>Ticket.id != exclude_ticket_id\<close> when \<^verbatim>\<open>exclude_ticket_id\<close> is truthy,
  then \<^verbatim>\<open>.all()\<close>.
\<close>

definition query_ticket_embeddings ::
  "session \<Rightarrow> int option \<Rightarrow> py_error + ticket_embedding list" where
  "query_ticket_embeddings db exclude_ticket_id =
     (case fault db of
        Some e \<Rightarrow> Inl e
      | None \<Rightarrow>
          Inr (filter
                 (\<lambda>te. list_ex
                    (\<lambda>t. te_ticket_id te = Some (t_id t) \<and>
                         (if truthy_int exclude_ticket_id
                          then Some (t_id t) \<noteq> exclude_ticket_id else True))
                    (tickets db))
                 (ticket_embeddings db)))"

text \<open>\<^verbatim>\<open>db.query(Ticket).filter(Ticket.id == ticket_id).first()\<close>.\<close>

definition query_ticket_first :: "session \<Rightarrow> int option \<Rightarrow> py_error + ticket option" where
  "query_ticket_first db ticket_id =
     (case fault db of
        Some e \<Rightarrow> Inl e
      | None \<Rightarrow> Inr (find (\<lambda>t. Some (t_id t) = ticket_id) (tickets db)))"

text \<open>
  \<^verbatim>\<open>db.query(KnowledgeEmbedding).join(KnowledgeBase)\<close>, filtered by the category
  when it is truthy and by \<^verbatim>\<open>KnowledgeBase.is_active == True\<close>, then \<^verbatim>\<open>.all()\<close>.
\<close>

definition query_knowledge_embeddings ::
  "session \<Rightarrow> string option \<Rightarrow> py_error + knowledge_embedding list" where
  "query_knowledge_embeddings db category =
     (case fault db of
        Some e \<Rightarrow> Inl e
      | None \<Rightarrow>
          Inr (filter
                 (\<lambda>ke. list_ex
                    (\<lambda>k. ke_knowledge_id ke = Some (k_id k) \<and>
                         (if truthy_str category then k_category k = category else True) \<and>
                         k_is_active k = Some True)
                    (knowledge_base db))
                 (knowledge_embeddings db)))"

definition query_knowledge_first ::
  "session \<Rightarrow> int option \<Rightarrow> py_error + knowledge option" where
  "query_knowledge_first db knowledge_id =
     (case fault db of
        Some e \<Rightarrow> Inl e
      | None \<Rightarrow> Inr (find (\<lambda>k. Some (k_id k) = knowledge_id) (knowledge_base db)))"

text \<open>
  The loop \<^verbatim>\<open>for sim in similarities[:limit]: row = first(sim[id]);
  if row: result.append({'ticket': row, 'similarity': sim['similarity']})\<close>, written
  twice in the source (tickets and knowledge).
\<close>

fun details_loop ::
  "('a \<Rightarrow> py_error + 'b option) \<Rightarrow> ('a \<times> pyfloat) list \<Rightarrow> ('b \<times> pyfloat) list
    \<Rightarrow> py_error + ('b \<times> pyfloat) list" where
  "details_loop first [] found = Inr found"
| "details_loop first ((x, similarity) # rest) found =
     (case first x of
        Inl e \<Rightarrow> Inl e
      | Inr None \<Rightarrow> details_loop first rest found
      | Inr (Some row) \<Rightarrow> details_loop first rest (found @ [(row, similarity)]))"

text \<open>
  The \<^verbatim>\<open>try\<close> block of \<^verbatim>\<open>find_similar_tickets\<close>, after the default of
  \<^verbatim>\<open>limit\<close> has been filled in. The result dictionaries
  \<^verbatim>\<open>{'ticket': t, 'similarity': s}\<close> are pairs \<open>(t, s)\<close>.
\<close>

definition find_similar_tickets_try ::
  "settings \<Rightarrow> (string \<Rightarrow> py_error + embedding) option \<Rightarrow> session \<Rightarrow> string \<Rightarrow> int
    \<Rightarrow> int option \<Rightarrow> string list \<Rightarrow> (py_error + (ticket \<times> pyfloat) list) \<times> string list" where
  "find_similar_tickets_try st model db query limit exclude_ticket_id calls =
     (case generate_embedding model query calls of
        (Inl e, calls') \<Rightarrow> (Inl e, calls')
      | (Inr query_embedding, calls') \<Rightarrow>
          (case query_ticket_embeddings db exclude_ticket_id of
             Inl e \<Rightarrow> (Inl e, calls')
           | Inr rows \<Rightarrow>
               if rows = [] then (Inr [], calls')
               else
                 (case similarity_loop (SIMILARITY_THRESHOLD st) query_embedding
                         te_embedding_vector rows [] of
                    Inl e \<Rightarrow> (Inl e, calls')
                  | Inr similarities \<Rightarrow>
                      (details_loop (\<lambda>te. query_ticket_first db (te_ticket_id te))
                         (py_slice (sort_by_similarity similarities) 0 limit) [],
                       calls'))))"

text \<open>
  \<^verbatim>\<open>find_similar_tickets(query, db, limit=None, exclude_ticket_id=None)\<close>:
  \<^verbatim>\<open>except Exception\<close> logs the error and returns the empty list.
\<close>

definition find_similar_tickets ::
  "settings \<Rightarrow> (string \<Rightarrow> py_error + embedding) option \<Rightarrow> session \<Rightarrow> string \<Rightarrow> int option
    \<Rightarrow> int option \<Rightarrow> string list \<Rightarrow> (ticket \<times> pyfloat) list \<times> string list" where
  "find_similar_tickets st model db query limit exclude_ticket_id calls =
     (let limit' = (case limit of None \<Rightarrow> MAX_RETRIEVED_DOCS st | Some l \<Rightarrow> l)
      in case find_similar_tickets_try st model db query limit' exclude_ticket_id calls of
           (Inl e, calls') \<Rightarrow> ([], calls')
         | (Inr similar_tickets, calls') \<Rightarrow> (similar_tickets, calls'))"

definition find_relevant_knowledge_try ::
  "settings \<Rightarrow> (string \<Rightarrow> py_error + embedding) option \<Rightarrow> session \<Rightarrow> string \<Rightarrow> int
    \<Rightarrow> string option \<Rightarrow> string list
    \<Rightarrow> (py_error + (knowledge \<times> pyfloat) list) \<times> string list" where
  "find_relevant_knowledge_try st model db query limit category calls =
     (case generate_embedding model query calls of
        (Inl e, calls') \<Rightarrow> (Inl e, calls')
      | (Inr query_embedding, calls') \<Rightarrow>
          (case query_knowledge_embeddings db category of
             Inl e \<Rightarrow> (Inl e, calls')
           | Inr rows \<Rightarrow>
               if rows = [] then (Inr [], calls')
               else
                 (case similarity_loop (SIMILARITY_THRESHOLD st) query_embedding
                         ke_embedding_vector rows [] of
                    Inl e \<Rightarrow> (Inl e, calls')
                  | Inr similarities \<Rightarrow>
                      (details_loop (\<lambda>ke. query_knowledge_first db (ke_knowledge_id ke))
                         (py_slice (sort_by_similarity similarities) 0 limit) [],
                       calls'))))"

definition find_relevant_knowledge ::
  "settings \<Rightarrow> (string \<Rightarrow> py_error + embedding) option \<Rightarrow> session \<Rightarrow> string \<Rightarrow> int option
    \<Rightarrow> string option \<Rightarrow> string list \<Rightarrow> (knowledge \<times> pyfloat) list \<times> string list" where
  "find_relevant_knowledge st model db query limit category calls =
     (let limit' = (case limit of None \<Rightarrow> MAX_RETRIEVED_DOCS st | Some l \<Rightarrow> l)
      in case find_relevant_knowledge_try st model db query limit' category calls of
           (Inl e, calls') \<Rightarrow> ([], calls')
         | (Inr relevant_knowledge, calls') \<Rightarrow> (relevant_knowledge, calls'))"

text \<open>The dictionary \<^verbatim>\<open>hybrid_search\<close> returns.\<close>

record search_results =
  similar_tickets :: "(ticket \<times> pyfloat) list"
  relevant_knowledge :: "(knowledge \<times> pyfloat) list"
  total_results :: nat

definition hybrid_search ::
  "settings \<Rightarrow> (string \<Rightarrow> py_error + embedding) option \<Rightarrow> session \<Rightarrow> string \<Rightarrow> int option
    \<Rightarrow> int option \<Rightarrow> string list \<Rightarrow> search_results \<times> string list" where
  "hybrid_search st model db query limit exclude_ticket_id calls =
     (let limit' = (case limit of None \<Rightarrow> MAX_RETRIEVED_DOCS st | Some l \<Rightarrow> l);
          ticket_limit = limit' div 2;
          knowledge_limit = limit' - ticket_limit
      in case find_similar_tickets st model db query (Some ticket_limit)
                exclude_ticket_id calls of
           (found_tickets, calls1) \<Rightarrow>
             (case find_relevant_knowledge st model db query (Some knowledge_limit)
                     None calls1 of
                (found_knowledge, calls2) \<Rightarrow>
                  (\<lparr>similar_tickets = found_tickets,
                    relevant_knowledge = found_knowledge,
                    total_results = length found_tickets + length found_knowledge\<rparr>,
                   calls2)))"


section \<open>backend/app/rag/generator.py: ResponseGenerator\<close>

text \<open>
  The completion service is the function \<open>client\<close>, from the request of
  \<^verbatim>\<open>client.chat.completions.create\<close> to its outcome: an error, or a completion
  whose \<open>choices\<close> are the message contents of its choices.
\<close>

record chat_request =
  req_model :: string
  req_system :: string
  req_user :: string
  req_max_tokens :: int
  req_temperature :: real

record chat_completion =
  choices :: "string list"

record source =
  src_type :: string
  src_id :: int
  src_title :: string
  src_similarity :: pyfloat

text \<open>The dictionary \<^verbatim>\<open>generate_response\<close> returns.\<close>

record generated =
  response :: string
  confidence :: pyfloat
  sources :: "source list"
  should_escalate :: bool

definition get_system_prompt :: string where
  "get_system_prompt = join_lines
     [''You are a helpful customer support assistant. Your role is to:'',
      ''        1. Provide accurate and helpful responses to customer inquiries'',
      ''        2. Use the provided context from similar tickets and knowledge base'',
      ''        3. Be empathetic and professional'',
      ''        4. If you're unsure about something, acknowledge it and suggest escalation'',
      ''        5. Keep responses concise but comprehensive'',
      ''        6. Always prioritize customer satisfaction and safety'']"

definition create_prompt :: "ticket \<Rightarrow> string \<Rightarrow> string" where
  "create_prompt ticket context = join_lines
     ['''',
      ''        Customer Ticket:'',
      ''        Title: '' @ t_title ticket,
      ''        Description: '' @ t_description ticket,
      ''        Category: '' @
         (case t_category ticket of None \<Rightarrow> ''Unknown'' | Some c \<Rightarrow> category_value c),
      ''        Priority: '' @
         (case t_priority ticket of None \<Rightarrow> ''Unknown'' | Some p \<Rightarrow> priority_value p),
      ''        '',
      ''        Context from similar tickets and knowledge base:'',
      ''        '' @ context,
      ''        '',
      ''        Please provide a helpful response to this customer ticket. Use the context provided to give accurate information, but don't directly reference the context in your response. Be professional, empathetic, and solution-focused.'',
      ''        '']"

text \<open>
  The two loops of \<^verbatim>\<open>_build_context\<close>, each appending the lines of one entry
  to \<^verbatim>\<open>context_parts\<close>. \<open>fmt\<close> is Python's formatting of a float
  with \<^verbatim>\<open>:.2f\<close>. \<^verbatim>\<open>ticket.status.value\<close> raises \<^verbatim>\<open>AttributeError\<close> when
  the status is \<^verbatim>\<open>None\<close>; \<^verbatim>\<open>{knowledge.category}\<close> prints \<^verbatim>\<open>None\<close> as text.
\<close>

definition ticket_context_entry ::
  "(pyfloat \<Rightarrow> string) \<Rightarrow> nat \<Rightarrow> ticket \<Rightarrow> pyfloat \<Rightarrow> py_error + string list" where
  "ticket_context_entry fmt i ticket similarity =
     (case t_status ticket of
        None \<Rightarrow> Inl AttributeError
      | Some status \<Rightarrow>
          Inr [str_nat i @ ''. Title: '' @ t_title ticket,
               ''   Description: '' @ t_description ticket,
               ''   Status: '' @ status_value status,
               ''   Similarity: '' @ fmt similarity,
               ''''])"

fun ticket_context_loop ::
  "(pyfloat \<Rightarrow> string) \<Rightarrow> (nat \<times> ticket \<times> pyfloat) list \<Rightarrow> string list
    \<Rightarrow> py_error + string list" where
  "ticket_context_loop fmt [] context_parts = Inr context_parts"
| "ticket_context_loop fmt ((i, ticket, similarity) # rest) context_parts =
     (case ticket_context_entry fmt i ticket similarity of
        Inl e \<Rightarrow> Inl e
      | Inr entry \<Rightarrow> ticket_context_loop fmt rest (context_parts @ entry))"

definition knowledge_context_entry ::
  "(pyfloat \<Rightarrow> string) \<Rightarrow> nat \<Rightarrow> knowledge \<Rightarrow> pyfloat \<Rightarrow> string list" where
  "knowledge_context_entry fmt i knowledge similarity =
     [str_nat i @ ''. Title: '' @ k_title knowledge,
      ''   Content: '' @ k_content knowledge,
      ''   Category: '' @ (case k_category knowledge of None \<Rightarrow> ''None'' | Some c \<Rightarrow> c),
      ''   Similarity: '' @ fmt similarity,
      '''']"

fun knowledge_context_loop ::
  "(pyfloat \<Rightarrow> string) \<Rightarrow> (nat \<times> knowledge \<times> pyfloat) list \<Rightarrow> string list
    \<Rightarrow> string list" where
  "knowledge_context_loop fmt [] context_parts = context_parts"
| "knowledge_context_loop fmt ((i, knowledge, similarity) # rest) context_parts =
     knowledge_context_loop fmt rest
       (context_parts @ knowledge_context_entry fmt i knowledge similarity)"

text \<open>
  The parameters \<^verbatim>\<open>similar_tickets\<close> and \<^verbatim>\<open>relevant_knowledge\<close> default to
  \<^verbatim>\<open>None\<close> and every use is guarded by their truthiness, under which \<^verbatim>\<open>None\<close>
  and the empty list agree: both are the empty list here.
\<close>

definition build_context ::
  "(pyfloat \<Rightarrow> string) \<Rightarrow> (ticket \<times> pyfloat) list \<Rightarrow> (knowledge \<times> pyfloat) list
    \<Rightarrow> py_error + string" where
  "build_context fmt similar relevant =
     (case (if similar \<noteq> []
            then ticket_context_loop fmt (enumerate 1 (take 3 similar))
                   [''Similar resolved tickets:'']
            else Inr []) of
        Inl e \<Rightarrow> Inl e
      | Inr context_parts \<Rightarrow>
          Inr (join_lines
                (if relevant \<noteq> []
                 then knowledge_context_loop fmt (enumerate 1 (take 3 relevant))
                        (context_parts @ [''Relevant knowledge base articles:''])
                 else context_parts)))"

text \<open>
  \<^verbatim>\<open>_calculate_confidence\<close>: the value of the variable \<^verbatim>\<open>confidence\<close> when the
  \<^verbatim>\<open>return\<close> is reached, and the value returned,
  \<^verbatim>\<open>min(max(confidence, 0.0), 1.0)\<close>.
\<close>

definition confidence_before_clamp ::
  "(ticket \<times> pyfloat) list \<Rightarrow> (knowledge \<times> pyfloat) list \<Rightarrow> pyfloat" where
  "confidence_before_clamp similar relevant =
     (let confidence0 = Fin (5 / 10);
          confidence1 =
            (if similar \<noteq> []
             then fadd confidence0
                    (fmul (fdiv (py_sum (map snd similar)) (Fin (real (length similar))))
                       (Fin (3 / 10)))
             else confidence0);
          confidence2 =
            (if relevant \<noteq> []
             then fadd confidence1
                    (fmul (fdiv (py_sum (map snd relevant)) (Fin (real (length relevant))))
                       (Fin (2 / 10)))
             else confidence1)
      in confidence2)"

definition calculate_confidence ::
  "(ticket \<times> pyfloat) list \<Rightarrow> (knowledge \<times> pyfloat) list \<Rightarrow> pyfloat" where
  "calculate_confidence similar relevant =
     py_min (py_max (confidence_before_clamp similar relevant) (Fin 0)) (Fin 1)"

definition extract_sources ::
  "(ticket \<times> pyfloat) list \<Rightarrow> (knowledge \<times> pyfloat) list \<Rightarrow> source list" where
  "extract_sources similar relevant =
     map (\<lambda>(t, s). \<lparr>src_type = ''ticket'', src_id = t_id t, src_title = t_title t,
                     src_similarity = s\<rparr>) similar @
     map (\<lambda>(k, s). \<lparr>src_type = ''knowledge'', src_id = k_id k, src_title = k_title k,
                     src_similarity = s\<rparr>) relevant"

text \<open>
  The arguments of the one call \<^verbatim>\<open>self.client.chat.completions.create(...)\<close>.
\<close>

definition completion_request :: "string \<Rightarrow> ticket \<Rightarrow> string \<Rightarrow> chat_request" where
  "completion_request model ticket context =
     \<lparr>req_model = model, req_system = get_system_prompt,
      req_user = create_prompt ticket context,
      req_max_tokens = 1000, req_temperature = 7 / 10\<rparr>"

text \<open>
  The \<^verbatim>\<open>try\<close> block of \<^verbatim>\<open>ResponseGenerator.generate_response\<close>;
  \<^verbatim>\<open>response.choices[0]\<close> raises \<^verbatim>\<open>IndexError\<close> on a completion without
  choices.
\<close>

definition generate_response_try ::
  "settings \<Rightarrow> (pyfloat \<Rightarrow> string) \<Rightarrow> (chat_request \<Rightarrow> py_error + chat_completion)
    \<Rightarrow> string \<Rightarrow> ticket \<Rightarrow> (ticket \<times> pyfloat) list \<Rightarrow> (knowledge \<times> pyfloat) list
    \<Rightarrow> py_error + generated" where
  "generate_response_try st fmt client model ticket similar relevant =
     (case build_context fmt similar relevant of
        Inl e \<Rightarrow> Inl e
      | Inr context \<Rightarrow>
          (case client (completion_request model ticket context) of
             Inl e \<Rightarrow> Inl e
           | Inr completion \<Rightarrow>
               (case choices completion of
                  [] \<Rightarrow> Inl IndexError
                | generated_text # _ \<Rightarrow>
                    (let c = calculate_confidence similar relevant
                     in Inr \<lparr>response = generated_text, confidence = c,
                             sources = extract_sources similar relevant,
                             should_escalate = flt c (ESCALATION_THRESHOLD st)\<rparr>))))"

text \<open>The dictionary returned by the \<^verbatim>\<open>except Exception\<close> handler.\<close>

definition fallback :: generated where
  "fallback =
     \<lparr>response = ''I apologize, but I'm unable to generate a response at this time. Please contact a human agent for assistance.'',
      confidence = Fin 0, sources = [], should_escalate = True\<rparr>"

definition generate_response ::
  "settings \<Rightarrow> (pyfloat \<Rightarrow> string) \<Rightarrow> (chat_request \<Rightarrow> py_error + chat_completion)
    \<Rightarrow> string \<Rightarrow> ticket \<Rightarrow> (ticket \<times> pyfloat) list \<Rightarrow> (knowledge \<times> pyfloat) list
    \<Rightarrow> generated" where
  "generate_response st fmt client model ticket similar relevant =
     (case generate_response_try st fmt client model ticket similar relevant of
        Inl e \<Rightarrow> fallback
      | Inr result \<Rightarrow> result)"


section \<open>ragpipe.py: RAGPipeline\<close>

subsection \<open>chunk_text\<close>

text \<open>
  The \<^verbatim>\<open>while\<close> loop of \<^verbatim>\<open>chunk_text\<close>, with its variables \<open>start\<close> and
  \<open>chunks\<close>. Nothing bounds the number of iterations, so the loop is a partial
  function: the value \<open>None\<close> means that the loop never ends.
\<close>

partial_function (option) chunk_loop ::
  "'a list \<Rightarrow> int \<Rightarrow> int \<Rightarrow> int \<Rightarrow> 'a list list \<Rightarrow> 'a list list option" where
  "chunk_loop text chunk_size overlap start chunks =
     (if start < int (length text)
      then chunk_loop text chunk_size overlap (start + (chunk_size - overlap))
             (chunks @ [py_slice text start (start + chunk_size)])
      else Some chunks)"

declare chunk_loop.simps [code]

definition chunk_text :: "'a list \<Rightarrow> int \<Rightarrow> int \<Rightarrow> 'a list list option" where
  "chunk_text text chunk_size overlap = chunk_loop text chunk_size overlap 0 []"

subsection \<open>JSON values\<close>

datatype json =
    JNull | JBool bool | JNum pyfloat | JStr string
  | JArr "json list" | JObj "(string \<times> json) list"

text \<open>
  \<^verbatim>\<open>value[key]\<close> with a string key and \<^verbatim>\<open>value[i]\<close> with an integer index,
  on a value that \<^verbatim>\<open>json.loads\<close> or \<^verbatim>\<open>response.json()\<close> produced. Of a
  repeated key of an object the last occurrence counts.
\<close>

fun getitem_key :: "json \<Rightarrow> string \<Rightarrow> py_error + json" where
  "getitem_key (JObj kvs) key =
     (case map_of (rev kvs) key of None \<Rightarrow> Inl KeyError | Some v \<Rightarrow> Inr v)"
| "getitem_key _ key = Inl TypeError"

definition list_getitem :: "'a list \<Rightarrow> int \<Rightarrow> py_error + 'a" where
  "list_getitem xs i =
     (if 0 \<le> i \<and> i < int (length xs) then Inr (xs ! nat i)
      else if i < 0 \<and> - int (length xs) \<le> i then Inr (xs ! nat (int (length xs) + i))
      else Inl IndexError)"

fun getitem_index :: "json \<Rightarrow> int \<Rightarrow> py_error + json" where
  "getitem_index (JArr xs) i = list_getitem xs i"
| "getitem_index (JStr s) i =
     (case list_getitem s i of Inl e \<Rightarrow> Inl e | Inr c \<Rightarrow> Inr (JStr [c]))"
| "getitem_index (JObj kvs) i = Inl KeyError"
| "getitem_index _ i = Inl TypeError"

subsection \<open>The ticket log tickets.jsonl\<close>

text \<open>
  The file is a list of lines. \<open>Record j\<close> is a complete line
  \<^verbatim>\<open>json.dumps(log) + "\n"\<close> that \<^verbatim>\<open>json.loads\<close> reads back as \<open>j\<close>;
  \<open>Corrupt\<close> is a complete line that is not a JSON document; \<open>Truncated\<close> is a last
  line cut off in the middle of a write: a proper, non-empty prefix of a record without
  its newline, which is not a JSON document either. The file is \<open>None\<close> when it does
  not exist.
\<close>

datatype log_line = Record json | Corrupt | Truncated

fun json_loads :: "log_line \<Rightarrow> py_error + json" where
  "json_loads (Record j) = Inr j"
| "json_loads Corrupt = Inl JSONDecodeError"
| "json_loads Truncated = Inl JSONDecodeError"

text \<open>
  The dictionary a query of a collection returns: under \<^verbatim>\<open>"documents"\<close> and
  \<^verbatim>\<open>"distances"\<close> one list per query embedding (an absent or empty entry is the
  empty list).
\<close>

record query_result =
  documents :: "string list list"
  distances :: "pyfloat list list"

text \<open>A collection of the vector store: documents with metadata, ids and embeddings.\<close>

record chroma_doc =
  doc_id :: string
  doc_text :: string
  doc_metadata :: "(string \<times> string) list"
  doc_embedding :: embedding

record pipeline_state =
  tickets_jsonl :: "log_line list option"
  collection :: "chroma_doc list"
  kb_collection :: "chroma_doc list"

text \<open>
  The collaborators of the pipeline: the sentence-embedding model, the \<^verbatim>\<open>query\<close>
  and \<^verbatim>\<open>add\<close> methods of a collection of the vector store, and
  \<^verbatim>\<open>requests.post\<close> to the completion endpoint with the prompt as the content of the
  one user message. The outcome of the post is an error or a response, which is the
  outcome of its \<^verbatim>\<open>.json()\<close>: an error for a body that is not JSON.
\<close>

record services =
  embed_model :: "string \<Rightarrow> py_error + embedding"
  chroma_query :: "chroma_doc list \<Rightarrow> embedding \<Rightarrow> int \<Rightarrow> py_error + query_result"
  chroma_add :: "chroma_doc list \<Rightarrow> chroma_doc \<Rightarrow> py_error + chroma_doc list"
  requests_post :: "string \<Rightarrow> py_error + (py_error + json)"

text \<open>
  The statement in the body of the class \<^verbatim>\<open>RAGPipeline\<close>, between the methods
  \<^verbatim>\<open>reset_support_tickets\<close> and \<^verbatim>\<open>embed_text\<close>:
  \<^verbatim>\<open>if os.path.exists("tickets.jsonl"): open("tickets.jsonl", "w").close()\<close>.
  Python runs the body of a class when it runs the \<^verbatim>\<open>class\<close> statement, that is
  when the module is imported; no instance and no services are involved.
\<close>

definition class_body :: "pipeline_state \<Rightarrow> pipeline_state" where
  "class_body s =
     (case tickets_jsonl s of None \<Rightarrow> s | Some ls \<Rightarrow> s\<lparr>tickets_jsonl := Some []\<rparr>)"

definition import_ragpipe :: "pipeline_state \<Rightarrow> pipeline_state" where
  "import_ragpipe s = class_body s"

text \<open>
  \<^verbatim>\<open>with open("tickets.jsonl", "a") as f: f.write(json.dumps(log) + "\n")\<close>:
  the file is created when missing; text appended after a truncated last line
  completes that line, which stays unreadable.
\<close>

fun append_record :: "log_line list \<Rightarrow> json \<Rightarrow> log_line list" where
  "append_record [] j = [Record j]"
| "append_record [Truncated] j = [Corrupt]"
| "append_record [l] j = [l, Record j]"
| "append_record (l # m # ls) j = l # append_record (m # ls) j"

definition store_ticket ::
  "services \<Rightarrow> pipeline_state \<Rightarrow> string \<Rightarrow> string \<Rightarrow> string \<Rightarrow> json \<Rightarrow> pyfloat \<Rightarrow> bool
    \<Rightarrow> py_error + pipeline_state" where
  "store_ticket sv s ticket_id text category reply score is_confident =
     (case embed_model sv text of
        Inl e \<Rightarrow> Inl e
      | Inr embedding \<Rightarrow>
          (case chroma_add sv (collection s)
                  \<lparr>doc_id = ticket_id, doc_text = text,
                   doc_metadata = [(''category'', category)],
                   doc_embedding = embedding\<rparr> of
             Inl e \<Rightarrow> Inl e
           | Inr collection' \<Rightarrow>
               Inr (s\<lparr>collection := collection',
                      tickets_jsonl :=
                        Some (append_record
                                (case tickets_jsonl s of None \<Rightarrow> [] | Some ls \<Rightarrow> ls)
                                (JObj [(''id'', JStr ticket_id), (''text'', JStr text),
                                       (''category'', JStr category), (''response'', reply),
                                       (''confidence'', JNum score),
                                       (''escalate'', JBool (\<not> is_confident))]))\<rparr>)))"

text \<open>
  The loop \<^verbatim>\<open>for line in f: tickets.append(json.loads(line))\<close> of
  \<^verbatim>\<open>get_all_tickets\<close>, whose list \<^verbatim>\<open>tickets\<close> is \<open>entries\<close> here: no
  handler surrounds \<^verbatim>\<open>json.loads\<close>. The result is \<^verbatim>\<open>tickets[::-1]\<close>.
\<close>

fun read_lines :: "log_line list \<Rightarrow> json list \<Rightarrow> py_error + json list" where
  "read_lines [] entries = Inr entries"
| "read_lines (line # rest) entries =
     (case json_loads line of
        Inl e \<Rightarrow> Inl e
      | Inr t \<Rightarrow> read_lines rest (entries @ [t]))"

definition get_all_tickets :: "pipeline_state \<Rightarrow> py_error + json list" where
  "get_all_tickets s =
     (case tickets_jsonl s of
        None \<Rightarrow> Inr (rev [])
      | Some ls \<Rightarrow>
          (case read_lines ls [] of
             Inl e \<Rightarrow> Inl e
           | Inr entries \<Rightarrow> Inr (rev entries)))"

subsection \<open>RAGPipeline.generate_response\<close>

definition search_similar ::
  "services \<Rightarrow> pipeline_state \<Rightarrow> string \<Rightarrow> int \<Rightarrow> py_error + query_result" where
  "search_similar sv s query top_k =
     (case embed_model sv query of
        Inl e \<Rightarrow> Inl e
      | Inr query_embedding \<Rightarrow> chroma_query sv (collection s) query_embedding top_k)"

definition search_kb ::
  "services \<Rightarrow> pipeline_state \<Rightarrow> string \<Rightarrow> int \<Rightarrow> py_error + query_result" where
  "search_kb sv s query top_k =
     (case embed_model sv query of
        Inl e \<Rightarrow> Inl e
      | Inr query_embedding \<Rightarrow> chroma_query sv (kb_collection s) query_embedding top_k)"

definition pipeline_prompt :: "string \<Rightarrow> string \<Rightarrow> string" where
  "pipeline_prompt query combined_context = join_lines
     [''You are a helpful support assistant.'',
      ''Use the information below from past tickets and company documentation to help the user.'',
      '''',
      ''User Question: '' @ [CHR 0x22] @ query @ [CHR 0x22],
      '''',
      ''Relevant Information:'',
      combined_context,
      '''',
      ''Helpful Response:'']"

text \<open>\<^verbatim>\<open>result["choices"][0]["message"]["content"]\<close>.\<close>

definition reply_of :: "json \<Rightarrow> py_error + json" where
  "reply_of result =
     (case getitem_key result ''choices'' of
        Inl e \<Rightarrow> Inl e
      | Inr cs \<Rightarrow>
          (case getitem_index cs 0 of
             Inl e \<Rightarrow> Inl e
           | Inr c \<Rightarrow>
               (case getitem_key c ''message'' of
                  Inl e \<Rightarrow> Inl e
                | Inr m \<Rightarrow> getitem_key m ''content'')))"

text \<open>
  \<^verbatim>\<open>RAGPipeline.generate_response(query, top_k=3, threshold=0.7)\<close>. The method has
  no \<^verbatim>\<open>try\<close>: an error of any step is the outcome of the call. The result is the
  tuple \<^verbatim>\<open>(reply, avg_score, is_confident)\<close>.
\<close>

definition pipeline_generate_response ::
  "services \<Rightarrow> pipeline_state \<Rightarrow> string \<Rightarrow> int \<Rightarrow> pyfloat
    \<Rightarrow> py_error + (json \<times> pyfloat \<times> bool)" where
  "pipeline_generate_response sv s query top_k threshold =
     (case search_similar sv s query top_k of
        Inl e \<Rightarrow> Inl e
      | Inr ticket_results \<Rightarrow>
          (let ticket_docs = (case documents ticket_results of [] \<Rightarrow> [] | d # _ \<Rightarrow> d);
               dists = (case distances ticket_results of [] \<Rightarrow> [] | d # _ \<Rightarrow> d);
               scores = map (\<lambda>d. fsub (Fin 1) d) dists;
               avg_score =
                 (if scores \<noteq> []
                  then fdiv (py_sum scores) (Fin (real (length scores))) else Fin 0)
           in case search_kb sv s query top_k of
                Inl e \<Rightarrow> Inl e
              | Inr kb_results \<Rightarrow>
                  (let kb_docs = (case documents kb_results of [] \<Rightarrow> [] | d # _ \<Rightarrow> d);
                       combined_context =
                         join_lines (map (\<lambda>doc. ''- '' @ doc) (ticket_docs @ kb_docs))
                   in case requests_post sv (pipeline_prompt query combined_context) of
                        Inl e \<Rightarrow> Inl e
                      | Inr response_json \<Rightarrow>
                          (case response_json of
                             Inl e \<Rightarrow> Inl e
                           | Inr result \<Rightarrow>
                               (case reply_of result of
                                  Inl e \<Rightarrow> Inl e
                                | Inr reply \<Rightarrow>
                                    Inr (reply, avg_score, fle threshold avg_score))))))"

section \<open>The ranking of the specification\<close>

text \<open>
  The operation \<^verbatim>\<open>rank\<close> as the specification words it, to be compared with what the
  source computes: given the similarities \<open>sims\<close> of the candidates in their order, a
  threshold and a limit, \<open>picks\<close> is the list of the positions returned, each with its
  similarity. There are at most \<open>limit\<close> of them; each is the position of a candidate,
  with the similarity of that candidate, which meets the threshold; they are in
  descending order of similarity, and in the order of the candidates among equal
  similarities; and every candidate that meets the threshold is returned, unless the
  result is full and each item returned is either more similar or as similar and earlier
  in the candidates.
\<close>

definition spec_rank :: "pyfloat list \<Rightarrow> pyfloat \<Rightarrow> nat \<Rightarrow> (nat \<times> pyfloat) list \<Rightarrow> bool" where
  "spec_rank sims threshold limit picks \<longleftrightarrow>
     length picks \<le> limit
     \<and> (\<forall>p\<in>set picks. fst p < length sims \<and> snd p = sims ! fst p \<and> fle threshold (snd p))
     \<and> sorted_wrt (\<lambda>a b. flt (snd b) (snd a) \<or> (snd a = snd b \<and> fst a < fst b)) picks
     \<and> (\<forall>i<length sims.
           fle threshold (sims ! i) \<longrightarrow>
             (i, sims ! i) \<in> set picks
             \<or> (length picks = limit
                \<and> (\<forall>p\<in>set picks. flt (sims ! i) (snd p) \<or> (snd p = sims ! i \<and> fst p < i))))"


section \<open>Concrete inputs\<close>

text \<open>
  Inputs on which the properties below are evaluated: tickets and knowledge items with
  their embeddings, an embedding model that maps every text to the same vector,
  completion services that answer or fail, and a vector store whose distances are all 2.
\<close>

definition example_ticket :: ticket where
  "example_ticket =
     \<lparr>t_id = 1, t_title = ''Double charge'',
      t_description = ''I was charged twice for my subscription'',
      t_status = Some OPEN, t_priority = Some MEDIUM, t_category = Some BILLING\<rparr>"

definition other_ticket :: ticket where
  "other_ticket =
     \<lparr>t_id = 2, t_title = ''Refund'', t_description = ''Where is my refund'',
      t_status = Some RESOLVED, t_priority = None, t_category = None\<rparr>"

definition example_knowledge :: knowledge where
  "example_knowledge =
     \<lparr>k_id = 7, k_title = ''Billing policy'', k_content = ''Duplicate charges are refunded'',
      k_category = Some ''billing'', k_is_active = Some True\<rparr>"

definition example_session :: session where
  "example_session =
     \<lparr>tickets = [example_ticket, other_ticket],
      ticket_embeddings =
        [\<lparr>te_ticket_id = Some 1, te_embedding_vector = [Fin 1, Fin 0]\<rparr>,
         \<lparr>te_ticket_id = Some 2, te_embedding_vector = [Fin 0, Fin 1]\<rparr>,
         \<lparr>te_ticket_id = Some 2, te_embedding_vector = [Fin 1, Fin 0]\<rparr>],
      knowledge_base = [example_knowledge],
      knowledge_embeddings =
        [\<lparr>ke_knowledge_id = Some 7, ke_embedding_vector = [Fin 1, Fin 0]\<rparr>],
      fault = None\<rparr>"

definition constant_model :: "string \<Rightarrow> py_error + embedding" where
  "constant_model text = Inr [Fin 1, Fin 0]"

definition plain_format :: "pyfloat \<Rightarrow> string" where
  "plain_format x = ''0.00''"

definition offline_client :: "chat_request \<Rightarrow> py_error + chat_completion" where
  "offline_client request = Inl ConnectionError"

definition answering_client :: "chat_request \<Rightarrow> py_error + chat_completion" where
  "answering_client request = Inr \<lparr>choices = [''We have refunded the second charge.'']\<rparr>"

definition far_query :: "chroma_doc list \<Rightarrow> embedding \<Rightarrow> int \<Rightarrow> py_error + query_result" where
  "far_query docs query_embedding n_results =
     Inr \<lparr>documents = [map doc_text docs], distances = [map (\<lambda>d. Fin 2) docs]\<rparr>"

definition plain_add :: "chroma_doc list \<Rightarrow> chroma_doc \<Rightarrow> py_error + chroma_doc list" where
  "plain_add docs d = Inr (docs @ [d])"

definition completion_body :: json where
  "completion_body =
     JObj [(''choices'',
            JArr [JObj [(''message'', JObj [(''role'', JStr ''assistant''),
                                            (''content'', JStr ''Please restart the app.'')])]])]"

definition answering_services :: services where
  "answering_services =
     \<lparr>embed_model = constant_model, chroma_query = far_query, chroma_add = plain_add,
      requests_post = (\<lambda>prompt. Inr (Inr completion_body))\<rparr>"

definition offline_services :: services where
  "offline_services =
     \<lparr>embed_model = constant_model, chroma_query = far_query, chroma_add = plain_add,
      requests_post = (\<lambda>prompt. Inl ConnectionError)\<rparr>"

definition empty_state :: pipeline_state where
  "empty_state = \<lparr>tickets_jsonl = None, collection = [], kb_collection = []\<rparr>"

definition one_ticket_state :: pipeline_state where
  "one_ticket_state =
     \<lparr>tickets_jsonl = Some [],
      collection = [\<lparr>doc_id = ''t1'', doc_text = ''My order never arrived'',
                     doc_metadata = [(''category'', ''Shipping Issue'')],
                     doc_embedding = [Fin 0, Fin 1]\<rparr>],
      kb_collection = []\<rparr>"

definition crashed_log_state :: pipeline_state where
  "crashed_log_state =
     \<lparr>tickets_jsonl = Some [Record (JObj [(''id'', JStr ''t1''), (''escalate'', JBool True)]),
                            Truncated],
      collection = [], kb_collection = []\<rparr>"


section \<open>Properties of the floats\<close>

lemma max_double_pos: "1 \<le> max_double"
  by (simp add: max_double_def)

lemma overflow_small [simp]: "\<bar>x\<bar> \<le> 1 \<Longrightarrow> overflow x = Fin x"
  using max_double_pos by (simp add: overflow_def abs_le_iff)

lemma flt_irrefl [simp]: "\<not> flt a a"
  by (cases a) simp_all

lemma flt_trans: "flt a b \<Longrightarrow> flt b c \<Longrightarrow> flt a c"
  by (cases a; cases b; cases c) simp_all

lemma flt_total: "a \<noteq> NaN \<Longrightarrow> b \<noteq> NaN \<Longrightarrow> flt a b \<or> a = b \<or> flt b a"
  by (cases a; cases b) auto

lemma flt_not_NaN: "flt a b \<Longrightarrow> a \<noteq> NaN \<and> b \<noteq> NaN"
  by (cases a; cases b) simp_all

lemma fle_iff: "fle a b \<longleftrightarrow> a \<noteq> NaN \<and> b \<noteq> NaN \<and> \<not> flt b a"
  by (cases a; cases b) auto

lemma fle_not_NaN: "fle a b \<Longrightarrow> a \<noteq> NaN \<and> b \<noteq> NaN"
  by (simp add: fle_iff)

lemma clamp_range:
  assumes "x \<noteq> NaN"
  shows "fle (Fin 0) (py_min (py_max x (Fin 0)) (Fin 1))
         \<and> fle (py_min (py_max x (Fin 0)) (Fin 1)) (Fin 1)"
  using assms by (cases x) (simp_all add: py_min_def py_max_def)

lemma clamp_NaN: "py_min (py_max NaN (Fin 0)) (Fin 1) = NaN"
  by (simp add: py_min_def py_max_def)


section \<open>Properties of the similarity scorer\<close>

lemma calculate_similarity_returns: "\<exists>s. calculate_similarity a b = Inr s"
  by (simp add: calculate_similarity_def split: sum.split)

text \<open>
  The guard of \<^verbatim>\<open>calculate_similarity\<close> does its work when both norms are finite:
  for embeddings of equal dimension, when one norm is zero and the other a finite
  number, the product of the norms is zero and the call returns exactly 0.
\<close>

lemma similarity_zero_norm_finite:
  assumes "length a = length b"
      and "(np_linalg_norm a = Fin 0 \<and> np_linalg_norm b = Fin y)
           \<or> (np_linalg_norm a = Fin x \<and> np_linalg_norm b = Fin 0)"
  shows "calculate_similarity_try a b = Inr (Fin 0) \<and> calculate_similarity a b = Inr (Fin 0)"
  using assms
  by (auto simp: calculate_similarity_def calculate_similarity_try_def np_dot_def)

text \<open>
  Claim C8. The guard tests the product of the norms, not the norms. For the zero vector
  \<^verbatim>\<open>[0.0, 0.0]\<close> and \<^verbatim>\<open>[2.0**700, 2.0**700]\<close> (or \<^verbatim>\<open>[1e200, 1e200]\<close>), which
  have the same dimension, the first norm is zero, the squares of the second vector
  overflow, its norm is infinite, the product of the norms is NaN, the test
  \<^verbatim>\<open>norm_product == 0\<close> is false, and the call returns NaN instead of 0.
\<close>

theorem similarity_zero_norm_overflow:
  "length [Fin 0, Fin 0] = length [Fin (2 ^ 700), Fin (2 ^ 700)]
   \<and> np_linalg_norm [Fin 0, Fin 0] = Fin 0
   \<and> np_linalg_norm [Fin (2 ^ 700), Fin (2 ^ 700)] = PInf
   \<and> calculate_similarity [Fin 0, Fin 0] [Fin (2 ^ 700), Fin (2 ^ 700)] = Inr NaN"
  by (simp add: calculate_similarity_def calculate_similarity_try_def np_dot_def dot_sum_def
        np_linalg_norm_def overflow_def max_double_def)

text \<open>
  Claim C4, as amended. For embeddings of unequal dimension \<^verbatim>\<open>np.dot\<close> raises
  \<^verbatim>\<open>ValueError\<close> inside the \<^verbatim>\<open>try\<close> block, the handler swallows it, and
  \<^verbatim>\<open>calculate_similarity\<close> returns the number 0: no error reaches the caller.
\<close>

theorem similarity_mismatch_returns_zero:
  assumes "length a \<noteq> length b"
  shows "calculate_similarity_try a b = Inl ValueError \<and> calculate_similarity a b = Inr (Fin 0)"
  using assms by (simp add: calculate_similarity_def calculate_similarity_try_def np_dot_def)

theorem similarity_mismatch_returns_zero_witness:
  "length [Fin 1] \<noteq> length [Fin 1, Fin 0]
   \<and> calculate_similarity_try [Fin 1] [Fin 1, Fin 0] = Inl ValueError
   \<and> calculate_similarity [Fin 1] [Fin 1, Fin 0] = Inr (Fin 0)"
  using similarity_mismatch_returns_zero [of "[Fin 1]" "[Fin 1, Fin 0]"] by simp

text \<open>
  The claim C4 as stated fails: for a one-dimensional and a two-dimensional embedding the
  call returns 0 and is not a failure with \<open>DimensionMismatchError\<close>.
\<close>

theorem similarity_mismatch_counterexample:
  "length [Fin 1] \<noteq> length [Fin 1, Fin 0]
   \<and> calculate_similarity [Fin 1] [Fin 1, Fin 0] = Inr (Fin 0)
   \<and> calculate_similarity [Fin 1] [Fin 1, Fin 0] \<noteq> Inl DimensionMismatchError"
  by (simp add: calculate_similarity_def calculate_similarity_try_def np_dot_def)

text \<open>The similarities of the unit vectors used in the examples.\<close>

lemma similarity_examples:
  "calculate_similarity [Fin 1, Fin 0] [Fin 1, Fin 0] = Inr (Fin 1)"
  "calculate_similarity [Fin 1, Fin 0] [Fin 0, Fin 1] = Inr (Fin 0)"
  by (simp_all add: calculate_similarity_def calculate_similarity_try_def np_dot_def
        dot_sum_def np_linalg_norm_def)


section \<open>Properties of the response synthesizers\<close>

text \<open>
  \<^verbatim>\<open>ResponseGenerator.generate_response\<close> never raises. When the completion call
  fails, or answers without choices, the result is the fixed fallback; in every other
  case it is the fallback or a result built from the generated text.
\<close>

lemma generate_response_fallback:
  assumes "build_context fmt similar relevant = Inr context"
      and "client (completion_request model ticket context) = Inl e
           \<or> client (completion_request model ticket context) = Inr \<lparr>choices = []\<rparr>"
  shows "generate_response st fmt client model ticket similar relevant = fallback"
  using assms by (auto simp: generate_response_def generate_response_try_def)

lemma generate_response_well_formed:
  "generate_response st fmt client model ticket similar relevant = fallback
   \<or> (\<exists>generated_text.
        generate_response st fmt client model ticket similar relevant =
          \<lparr>response = generated_text,
           confidence = calculate_confidence similar relevant,
           sources = extract_sources similar relevant,
           should_escalate = flt (calculate_confidence similar relevant)
                               (ESCALATION_THRESHOLD st)\<rparr>)"
  by (simp add: generate_response_def generate_response_try_def Let_def
           split: sum.split list.split)

text \<open>
  The value before the clamp is not NaN when no similarity is negative or NaN, as is the
  case of the results of a retrieval with a threshold that is not negative.
\<close>

lemma overflow_nonneg: "0 \<le> x \<Longrightarrow> fle (Fin 0) (overflow x)"
  using max_double_pos by (simp add: overflow_def)

lemma fadd_nonneg: "fle (Fin 0) a \<Longrightarrow> fle (Fin 0) b \<Longrightarrow> fle (Fin 0) (fadd a b)"
  by (cases a; cases b) (simp_all add: overflow_nonneg)

lemma fdiv_nonneg: "fle (Fin 0) a \<Longrightarrow> 0 < n \<Longrightarrow> fle (Fin 0) (fdiv a (Fin (real n)))"
  by (cases a) (simp_all add: overflow_nonneg signed_inf_def)

lemma fmul_nonneg: "fle (Fin 0) a \<Longrightarrow> 0 < w \<Longrightarrow> fle (Fin 0) (fmul a (Fin w))"
  by (cases a) (simp_all add: overflow_nonneg signed_inf_def)

lemma py_sum_nonneg:
  assumes "\<forall>x\<in>set xs. fle (Fin 0) x"
  shows "fle (Fin 0) (py_sum xs)"
proof -
  have "fle (Fin 0) acc \<Longrightarrow> \<forall>x\<in>set xs. fle (Fin 0) x \<Longrightarrow> fle (Fin 0) (foldl fadd acc xs)"
    for acc
    by (induction xs arbitrary: acc) (simp_all add: fadd_nonneg)
  then show ?thesis using assms by (simp add: py_sum_def)
qed

lemma weighted_average_nonneg:
  assumes "\<forall>p\<in>set xs. fle (Fin 0) (snd p)" and "xs \<noteq> []" and "0 < w"
  shows "fle (Fin 0) (fmul (fdiv (py_sum (map snd xs)) (Fin (real (length xs)))) (Fin w))"
proof -
  have "fle (Fin 0) (py_sum (map snd xs))" using assms(1) by (intro py_sum_nonneg) simp
  moreover have "0 < length xs" using assms(2) by simp
  ultimately have "fle (Fin 0) (fdiv (py_sum (map snd xs)) (Fin (real (length xs))))"
    by (rule fdiv_nonneg)
  then show ?thesis using assms(3) by (rule fmul_nonneg)
qed

lemma confidence_defined:
  assumes "\<forall>p\<in>set similar. fle (Fin 0) (snd p)" and "\<forall>p\<in>set relevant. fle (Fin 0) (snd p)"
  shows "confidence_before_clamp similar relevant \<noteq> NaN"
proof -
  define c1 where "c1 = (if similar \<noteq> []
             then fadd (Fin (5 / 10))
                    (fmul (fdiv (py_sum (map snd similar)) (Fin (real (length similar))))
                       (Fin (3 / 10)))
             else Fin (5 / 10))"
  define c2 where "c2 = (if relevant \<noteq> []
             then fadd c1
                    (fmul (fdiv (py_sum (map snd relevant)) (Fin (real (length relevant))))
                       (Fin (2 / 10)))
             else c1)"
  have eq: "confidence_before_clamp similar relevant = c2"
    by (simp add: confidence_before_clamp_def c1_def c2_def Let_def)
  have base: "fle (Fin 0) (Fin (5 / 10))" by simp
  have "fle (Fin 0) c1"
  proof (cases "similar = []")
    case True
    then show ?thesis by (simp add: c1_def)
  next
    case False
    from weighted_average_nonneg[OF assms(1) False, of "3 / 10"] base
    have "fle (Fin 0) (fadd (Fin (5 / 10))
                    (fmul (fdiv (py_sum (map snd similar)) (Fin (real (length similar))))
                       (Fin (3 / 10))))"
      by (intro fadd_nonneg) simp_all
    then show ?thesis using False by (simp add: c1_def)
  qed
  have "fle (Fin 0) c2"
  proof (cases "relevant = []")
    case True
    then show ?thesis using \<open>fle (Fin 0) c1\<close> by (simp add: c2_def)
  next
    case False
    from weighted_average_nonneg[OF assms(2) False, of "2 / 10"] \<open>fle (Fin 0) c1\<close>
    have "fle (Fin 0) (fadd c1
                    (fmul (fdiv (py_sum (map snd relevant)) (Fin (real (length relevant))))
                       (Fin (2 / 10))))"
      by (intro fadd_nonneg) simp_all
    then show ?thesis using False by (simp add: c2_def)
  qed
  then show ?thesis unfolding eq using fle_not_NaN by blast
qed

text \<open>
  The confidence \<^verbatim>\<open>RAGPipeline.generate_response\<close> returns: the average of
  \<open>1 - distance\<close> over the distances of the ticket search, 0 when there are none,
  with no base, no weights and no clamp.
\<close>

lemma pipeline_confidence:
  assumes "pipeline_generate_response sv s query top_k threshold
             = Inr (reply, score, is_confident)"
  shows "\<exists>ticket_results.
           search_similar sv s query top_k = Inr ticket_results
           \<and> score = (case distances ticket_results of
                        [] \<Rightarrow> Fin 0
                      | d # _ \<Rightarrow>
                          if d = [] then Fin 0
                          else fdiv (py_sum (map (\<lambda>x. fsub (Fin 1) x) d))
                                 (Fin (real (length d))))
           \<and> is_confident = fle threshold score"
  using assms
  by (auto simp: pipeline_generate_response_def Let_def
           split: sum.splits list.splits if_splits)

text \<open>
  Claim C2, as amended. In \<^verbatim>\<open>ResponseGenerator\<close>, the confidence of
  \<^verbatim>\<open>_calculate_confidence\<close> is the base 0.5, plus 0.3 times the average similarity
  of the ticket results when there are some, plus 0.2 times the average similarity of
  the knowledge results when there are some, passed through
  \<^verbatim>\<open>min(max(confidence, 0.0), 1.0)\<close>; it is 0.5 when both lists are empty, and it
  lies in \<open>[0, 1]\<close> whenever the value before the clamp is a number, that is, not NaN
  (lemma \<open>confidence_defined\<close>: it is one when no similarity is negative or NaN).
  The confidence \<^verbatim>\<open>generate_response\<close> returns is this value when the \<^verbatim>\<open>try\<close>
  block succeeds and 0 when it fails; it is 0 when the completion call fails.
  \<^verbatim>\<open>RAGPipeline.generate_response\<close>, when it returns, returns the unclamped average
  of \<open>1 - distance\<close> over the ticket results, and 0 when there are none.
\<close>

theorem confidence_contract:
  "calculate_confidence similar relevant =
     (let c1 = (if similar = [] then Fin (5 / 10)
                else fadd (Fin (5 / 10))
                       (fmul (fdiv (py_sum (map snd similar)) (Fin (real (length similar))))
                          (Fin (3 / 10))));
          c2 = (if relevant = [] then c1
                else fadd c1
                       (fmul (fdiv (py_sum (map snd relevant)) (Fin (real (length relevant))))
                          (Fin (2 / 10))))
      in py_min (py_max c2 (Fin 0)) (Fin 1))
   \<and> calculate_confidence [] [] = Fin (5 / 10)
   \<and> confidence (generate_response st fmt client model ticket similar relevant) =
       (case generate_response_try st fmt client model ticket similar relevant of
          Inl e \<Rightarrow> Fin 0
        | Inr result \<Rightarrow> calculate_confidence similar relevant)
   \<and> (confidence_before_clamp similar relevant \<noteq> NaN \<longrightarrow>
        fle (Fin 0) (calculate_confidence similar relevant)
        \<and> fle (calculate_confidence similar relevant) (Fin 1)
        \<and> fle (Fin 0) (confidence (generate_response st fmt client model ticket similar relevant))
        \<and> fle (confidence (generate_response st fmt client model ticket similar relevant))
              (Fin 1))
   \<and> (\<forall>context e.
         build_context fmt similar relevant = Inr context
         \<and> client (completion_request model ticket context) = Inl e
         \<longrightarrow> confidence (generate_response st fmt client model ticket similar relevant) = Fin 0)
   \<and> (\<forall>reply score is_confident.
         pipeline_generate_response sv s query top_k threshold
           = Inr (reply, score, is_confident)
         \<longrightarrow> (\<exists>ticket_results.
                search_similar sv s query top_k = Inr ticket_results
                \<and> score = (case distances ticket_results of
                             [] \<Rightarrow> Fin 0
                           | d # _ \<Rightarrow>
                               if d = [] then Fin 0
                               else fdiv (py_sum (map (\<lambda>x. fsub (Fin 1) x) d))
                                      (Fin (real (length d))))
                \<and> is_confident = fle threshold score))"
proof -
  have formula: "calculate_confidence similar relevant =
     (let c1 = (if similar = [] then Fin (5 / 10)
                else fadd (Fin (5 / 10))
                       (fmul (fdiv (py_sum (map snd similar)) (Fin (real (length similar))))
                          (Fin (3 / 10))));
          c2 = (if relevant = [] then c1
                else fadd c1
                       (fmul (fdiv (py_sum (map snd relevant)) (Fin (real (length relevant))))
                          (Fin (2 / 10))))
      in py_min (py_max c2 (Fin 0)) (Fin 1))"
    by (simp add: calculate_confidence_def confidence_before_clamp_def Let_def)
  have base: "calculate_confidence [] [] = Fin (5 / 10)"
    by (simp add: calculate_confidence_def confidence_before_clamp_def py_min_def py_max_def)
  have split: "confidence (generate_response st fmt client model ticket similar relevant) =
       (case generate_response_try st fmt client model ticket similar relevant of
          Inl e \<Rightarrow> Fin 0
        | Inr result \<Rightarrow> calculate_confidence similar relevant)"
    by (simp add: generate_response_def generate_response_try_def fallback_def Let_def
             split: sum.split list.split)
  have range: "fle (Fin 0) (calculate_confidence similar relevant)
        \<and> fle (calculate_confidence similar relevant) (Fin 1)
        \<and> fle (Fin 0) (confidence (generate_response st fmt client model ticket similar relevant))
        \<and> fle (confidence (generate_response st fmt client model ticket similar relevant))
              (Fin 1)"
    if "confidence_before_clamp similar relevant \<noteq> NaN"
  proof -
    from clamp_range[OF that]
    have c: "fle (Fin 0) (calculate_confidence similar relevant)
             \<and> fle (calculate_confidence similar relevant) (Fin 1)"
      by (simp add: calculate_confidence_def)
    then show ?thesis unfolding split by (simp split: sum.split)
  qed
  have failed: "\<forall>context e.
         build_context fmt similar relevant = Inr context
         \<and> client (completion_request model ticket context) = Inl e
         \<longrightarrow> confidence (generate_response st fmt client model ticket similar relevant) = Fin 0"
    by (auto simp: generate_response_fallback fallback_def)
  have pipeline: "\<forall>reply score is_confident.
         pipeline_generate_response sv s query top_k threshold
           = Inr (reply, score, is_confident)
         \<longrightarrow> (\<exists>ticket_results.
                search_similar sv s query top_k = Inr ticket_results
                \<and> score = (case distances ticket_results of
                             [] \<Rightarrow> Fin 0
                           | d # _ \<Rightarrow>
                               if d = [] then Fin 0
                               else fdiv (py_sum (map (\<lambda>x. fsub (Fin 1) x) d))
                                      (Fin (real (length d))))
                \<and> is_confident = fle threshold score)"
    using pipeline_confidence by blast
  from formula base split range failed pipeline show ?thesis by blast
qed

lemma pipeline_examples:
  "pipeline_generate_response answering_services empty_state ''Where is my order?'' 3
     (Fin (7 / 10)) = Inr (JStr ''Please restart the app.'', Fin 0, False)"
  "pipeline_generate_response answering_services one_ticket_state ''Where is my order?'' 3
     (Fin (7 / 10)) = Inr (JStr ''Please restart the app.'', Fin (- 1), False)"
  by (simp_all add: pipeline_generate_response_def search_similar_def search_kb_def
        answering_services_def constant_model_def far_query_def empty_state_def
        one_ticket_state_def reply_of_def completion_body_def list_getitem_def
        py_sum_def fsub_def)

theorem confidence_contract_witness:
  "confidence_before_clamp [(example_ticket, Fin 1)] [] \<noteq> NaN
   \<and> calculate_confidence [(example_ticket, Fin 1)] [] = Fin (8 / 10)
   \<and> fle (Fin 0) (calculate_confidence [(example_ticket, Fin 1)] [])
   \<and> fle (calculate_confidence [(example_ticket, Fin 1)] []) (Fin 1)
   \<and> build_context plain_format [(example_ticket, Fin 1)] [] \<noteq> Inl AttributeError
   \<and> offline_client (completion_request ''gpt-3.5-turbo'' example_ticket
        (projr (build_context plain_format [(example_ticket, Fin 1)] []))) = Inl ConnectionError
   \<and> confidence (generate_response default_settings plain_format offline_client
                    ''gpt-3.5-turbo'' example_ticket [(example_ticket, Fin 1)] []) = Fin 0
   \<and> pipeline_generate_response answering_services one_ticket_state ''Where is my order?'' 3
        (Fin (7 / 10)) = Inr (JStr ''Please restart the app.'', Fin (- 1), False)
   \<and> search_similar answering_services one_ticket_state ''Where is my order?'' 3
       = Inr \<lparr>documents = [[''My order never arrived'']], distances = [[Fin 2]]\<rparr>"
proof -
  have raw: "confidence_before_clamp [(example_ticket, Fin 1)] [] = Fin (8 / 10)"
    by (simp add: confidence_before_clamp_def py_sum_def)
  have calc: "calculate_confidence [(example_ticket, Fin 1)] [] = Fin (8 / 10)"
    by (simp add: calculate_confidence_def raw py_min_def py_max_def)
  obtain c0 where ctx: "build_context plain_format [(example_ticket, Fin 1)] [] = Inr c0"
    by (simp add: build_context_def ticket_context_entry_def example_ticket_def)
  have off: "offline_client (completion_request ''gpt-3.5-turbo'' example_ticket c0)
             = Inl ConnectionError"
    by (simp add: offline_client_def)
  have search: "search_similar answering_services one_ticket_state ''Where is my order?'' 3
       = Inr \<lparr>documents = [[''My order never arrived'']], distances = [[Fin 2]]\<rparr>"
    by (simp add: search_similar_def answering_services_def constant_model_def far_query_def
          one_ticket_state_def)
  note c = confidence_contract [of "[(example_ticket, Fin 1)]" "[]" default_settings
         plain_format offline_client "''gpt-3.5-turbo''" example_ticket
         answering_services one_ticket_state "''Where is my order?''" 3 "Fin (7 / 10)"]
  have nn: "confidence_before_clamp [(example_ticket, Fin 1)] [] \<noteq> NaN"
    using raw by simp
  from c nn have range: "fle (Fin 0) (calculate_confidence [(example_ticket, Fin 1)] [])
       \<and> fle (calculate_confidence [(example_ticket, Fin 1)] []) (Fin 1)"
    by blast
  from c ctx off have zero: "confidence (generate_response default_settings plain_format
        offline_client ''gpt-3.5-turbo'' example_ticket [(example_ticket, Fin 1)] []) = Fin 0"
    by blast
  from nn calc range ctx off zero pipeline_examples(2) search show ?thesis by simp
qed

text \<open>
  The claim C2 as stated fails on \<^verbatim>\<open>RAGPipeline.generate_response\<close>, whose
  confidence is the plain average of \<open>1 - distance\<close> over the ticket results: it is 0,
  not 0.5, when there are no results, and it is \<open>-1\<close>, below 0, for one result at
  distance 2. In \<^verbatim>\<open>ResponseGenerator\<close> it fails for a similarity that is NaN:
  \<^verbatim>\<open>max(nan, 0.0)\<close> and \<^verbatim>\<open>min(nan, 1.0)\<close> are NaN, which is not in \<open>[0, 1]\<close>.
\<close>

theorem confidence_counterexample:
  "pipeline_generate_response answering_services empty_state ''Where is my order?'' 3
     (Fin (7 / 10)) = Inr (JStr ''Please restart the app.'', Fin 0, False)
   \<and> Fin 0 \<noteq> Fin (5 / 10)
   \<and> pipeline_generate_response answering_services one_ticket_state ''Where is my order?'' 3
     (Fin (7 / 10)) = Inr (JStr ''Please restart the app.'', Fin (- 1), False)
   \<and> \<not> fle (Fin 0) (Fin (- 1))
   \<and> calculate_confidence [(example_ticket, NaN)] [] = NaN
   \<and> \<not> fle (Fin 0) NaN \<and> \<not> fle NaN (Fin 1)"
  by (simp add: pipeline_generate_response_def search_similar_def search_kb_def
        answering_services_def constant_model_def far_query_def empty_state_def
        one_ticket_state_def reply_of_def completion_body_def list_getitem_def
        py_sum_def fsub_def calculate_confidence_def confidence_before_clamp_def
        py_max_def py_min_def)

text \<open>
  Claim C1. \<^verbatim>\<open>RAGPipeline.generate_response\<close> has no handler around
  \<^verbatim>\<open>requests.post\<close>: when the completion endpoint cannot be reached, the call
  ends in the error instead of a fallback reply.
\<close>

theorem pipeline_propagates_failure:
  "pipeline_generate_response offline_services empty_state ''Where is my order?'' 3 (Fin (7 / 10))
     = Inl ConnectionError"
  by (simp add: pipeline_generate_response_def search_similar_def search_kb_def
        offline_services_def constant_model_def far_query_def empty_state_def)


section \<open>Properties of the text chunker\<close>

lemma py_slice_nonneg:
  assumes "0 \<le> a" and "a \<le> b"
  shows "py_slice xs a b = take (nat (b - a)) (drop (nat a) xs)"
proof (cases "a < int (length xs)")
  case False
  then show ?thesis using assms by (simp add: py_slice_def Let_def)
next
  case True
  show ?thesis
  proof (cases "b \<le> int (length xs)")
    case True
    then show ?thesis using assms \<open>a < int (length xs)\<close> by (simp add: py_slice_def Let_def min_def)
  next
    case False
    then have "length (drop (nat a) xs) \<le> nat (b - a)" "length (drop (nat a) xs) \<le> nat (int (length xs) - a)"
      using assms True by auto
    then show ?thesis using assms True False by (simp add: py_slice_def Let_def min_def)
  qed
qed

lemma chunk_loop_closed:
  assumes "0 < cs - ov"
  shows "chunk_loop text cs ov start chunks =
     Some (chunks @ map (\<lambda>k. py_slice text (start + int k * (cs - ov)) (start + int k * (cs - ov) + cs))
                      [0..<nat (- ((start - int (length text)) div (cs - ov)))])"
proof (induction "nat (int (length text) - start)" arbitrary: start chunks rule: less_induct)
  case less
  let ?step = "cs - ov"
  let ?len = "int (length text)"
  show ?case
  proof (cases "start < ?len")
    case False
    then have "0 \<le> (start - ?len) div ?step" using assms by (simp add: pos_imp_zdiv_nonneg_iff)
    then show ?thesis using False by (subst chunk_loop.simps) simp
  next
    case True
    have m: "nat (?len - (start + ?step)) < nat (?len - start)" using True assms by linarith
    have "start + ?step - ?len = (start - ?len) + ?step" by simp
    then have d: "(start + ?step - ?len) div ?step = (start - ?len) div ?step + 1"
      using assms by (metis div_add_self2 less_irrefl)
    have neg: "(start - ?len) div ?step < 0" using True assms by (intro div_neg_pos_less0) simp_all
    define n' where "n' = nat (- ((start + ?step - ?len) div ?step))"
    have n: "nat (- ((start - ?len) div ?step)) = Suc n'" unfolding n'_def using d neg by linarith
    have "chunk_loop text cs ov start chunks =
          chunk_loop text cs ov (start + ?step) (chunks @ [py_slice text start (start + cs)])"
      using True by (subst chunk_loop.simps) simp
    also have "\<dots> = Some ((chunks @ [py_slice text start (start + cs)]) @
        map (\<lambda>k. py_slice text (start + ?step + int k * ?step) (start + ?step + int k * ?step + cs)) [0..<n'])"
      unfolding n'_def by (rule less.hyps[OF m])
    also have "\<dots> = Some (chunks @ map (\<lambda>k. py_slice text (start + int k * ?step) (start + int k * ?step + cs)) [0..<Suc n'])"
      by (simp add: upt_conv_Cons map_Suc_upt[symmetric] o_def algebra_simps del: upt_Suc)
    finally show ?thesis unfolding n by simp
  qed
qed

lemma chunk_text_terminates:
  assumes "overlap < chunk_size"
  shows "\<exists>chunks. chunk_text text chunk_size overlap = Some chunks"
  using assms by (simp add: chunk_text_def chunk_loop_closed)

lemma chunk_loop_diverges:
  assumes "chunk_size \<le> overlap" and "start < int (length text)"
  shows "chunk_loop text chunk_size overlap start chunks = None"
proof (cases "chunk_loop text chunk_size overlap start chunks")
  case None
  then show ?thesis .
next
  case (Some y)
  have "\<not> (chunk_size \<le> overlap \<and> start < int (length text))"
    by (rule chunk_loop.raw_induct
          [where P = "\<lambda>t cs ov st cks y. \<not> (cs \<le> ov \<and> st < int (length t))", OF _ Some])
       (fastforce split: if_splits)
  with assms show ?thesis by simp
qed

text \<open>
  Claim C5, as amended. For a non-empty text and \<open>0 \<le> overlap < chunk_size\<close> the loop
  ends; the number of chunks is the ceiling of \<open>len(text) / (chunk_size - overlap)\<close>;
  chunk \<open>k\<close> is the window of at most \<open>chunk_size\<close> characters that starts at
  \<open>k * (chunk_size - overlap)\<close>; and no chunk is longer than \<open>chunk_size\<close>.
\<close>

theorem chunk_text_windows:
  assumes "text \<noteq> []" and "0 \<le> overlap" and "overlap < chunk_size"
  shows "\<exists>chunks. chunk_text text chunk_size overlap = Some chunks
      \<and> int (length chunks) = \<lceil>real (length text) / real_of_int (chunk_size - overlap)\<rceil>
      \<and> (\<forall>k < length chunks.
            chunks ! k = take (nat chunk_size) (drop (k * nat (chunk_size - overlap)) text))
      \<and> (\<forall>c \<in> set chunks. int (length c) \<le> chunk_size)"
proof -
  let ?step = "chunk_size - overlap"
  let ?n = "nat (- ((0 - int (length text)) div ?step))"
  let ?chunks = "map (\<lambda>k. py_slice text (0 + int k * ?step) (0 + int k * ?step + chunk_size)) [0..<?n]"
  have step: "0 < ?step" using assms by simp
  have run: "chunk_text text chunk_size overlap = Some ?chunks"
    unfolding chunk_text_def using chunk_loop_closed[OF step, of "text" 0 "[]"] by simp
  have win: "py_slice text (0 + int k * ?step) (0 + int k * ?step + chunk_size)
        = take (nat chunk_size) (drop (k * nat ?step) text)" for k
  proof -
    have "0 \<le> int k * ?step" using step by simp
    moreover have "int k * ?step \<le> int k * ?step + chunk_size" using assms by simp
    ultimately have "py_slice text (int k * ?step) (int k * ?step + chunk_size)
        = take (nat (int k * ?step + chunk_size - int k * ?step)) (drop (nat (int k * ?step)) text)"
      by (rule py_slice_nonneg)
    moreover have "nat (int k * ?step) = k * nat ?step" using step by (simp add: nat_mult_distrib)
    ultimately show ?thesis by simp
  qed
  have "\<lceil>real_of_int (int (length text)) / real_of_int ?step\<rceil> = - (- int (length text) div ?step)"
    by (rule ceiling_divide_eq_div)
  then have "- ((0 - int (length text)) div ?step) = \<lceil>real (length text) / real_of_int ?step\<rceil>"
    by simp
  moreover have "0 \<le> real (length text) / real_of_int ?step"
    using step by simp
  then have "0 \<le> \<lceil>real (length text) / real_of_int ?step\<rceil>"
    by (metis ceiling_mono ceiling_zero)
  ultimately have cnt: "int (length ?chunks) = \<lceil>real (length text) / real_of_int ?step\<rceil>"
    by simp
  have idx: "\<forall>k < length ?chunks. ?chunks ! k = take (nat chunk_size) (drop (k * nat ?step) text)"
    using win by simp
  have len: "\<forall>c \<in> set ?chunks. int (length c) \<le> chunk_size"
    using win assms by auto
  from run cnt idx len show ?thesis by blast
qed

theorem chunk_text_windows_witness:
  "''abcdefghij'' \<noteq> [] \<and> (0::int) \<le> 1 \<and> (1::int) < 4
   \<and> chunk_text ''abcdefghij'' 4 1 = Some [''abcd'', ''defg'', ''ghij'', ''j'']
   \<and> int (length [''abcd'', ''defg'', ''ghij'', ''j'']) = \<lceil>real (length ''abcdefghij'') / real_of_int (4 - 1)\<rceil>"
proof -
  have run: "chunk_text ''abcdefghij'' 4 1 = Some [''abcd'', ''defg'', ''ghij'', ''j'']"
    by (simp add: chunk_text_def chunk_loop.simps py_slice_def)
  from chunk_text_windows [of "''abcdefghij''" 1 4]
  obtain chunks where "chunk_text ''abcdefghij'' 4 1 = Some chunks"
    and "int (length chunks) = \<lceil>real (length ''abcdefghij'') / real_of_int (4 - 1)\<rceil>"
    by auto
  with run show ?thesis by simp
qed

text \<open>
  The count of claim C5 as stated, the ceiling of
  \<open>(len(text) - overlap) / (chunk_size - overlap)\<close>, fails: a text of two characters
  with \<open>chunk_size = 2\<close> and \<open>overlap = 1\<close> gives two chunks, and the stated count is 1.
\<close>

theorem chunk_count_counterexample:
  "chunk_text ''ab'' 2 1 = Some [''ab'', ''b'']
   \<and> int (length [''ab'', ''b'']) \<noteq> \<lceil>(real (length ''ab'') - real_of_int 1) / real_of_int (2 - 1)\<rceil>"
  by (simp add: chunk_text_def chunk_loop.simps py_slice_def)

text \<open>
  Claim C6. With \<open>overlap \<ge> chunk_size\<close> and a non-empty text the code does not reject
  the configuration: \<open>start\<close> never passes the length of the text and the loop never
  ends. Here on the text \<^verbatim>\<open>"a"\<close> with \<open>chunk_size = 1\<close> and \<open>overlap = 1\<close>.
\<close>

theorem chunk_text_never_returns: "chunk_text ''a'' 1 1 = None"
  unfolding chunk_text_def by (rule chunk_loop_diverges) simp_all


section \<open>Properties of the ticket log\<close>

lemma read_lines_records: "read_lines (map Record js) entries = Inr (entries @ js)"
  by (induction js arbitrary: entries) simp_all

lemma read_lines_unreadable:
  assumes "json_loads l = Inl e"
  shows "read_lines (map Record js @ l # rest) entries = Inl e"
  using assms by (induction js arbitrary: entries) simp_all

text \<open>
  Claim C10. Importing the module runs the body of the class, which empties
  \<^verbatim>\<open>tickets.jsonl\<close> whenever the file exists and touches nothing else; no instance
  is constructed and no reset is called in \<open>import_ragpipe\<close>. Whatever records the log
  held before (they read back as \<open>rev js\<close>), after the import the log reads as empty:
  the log does not survive a restart of the process.
\<close>

theorem import_truncates_ticket_log:
  "tickets_jsonl (import_ragpipe s) = (case tickets_jsonl s of None \<Rightarrow> None | Some ls \<Rightarrow> Some [])
   \<and> collection (import_ragpipe s) = collection s
   \<and> kb_collection (import_ragpipe s) = kb_collection s
   \<and> get_all_tickets (import_ragpipe s) = Inr []
   \<and> get_all_tickets (s\<lparr>tickets_jsonl := Some (map Record js)\<rparr>) = Inr (rev js)
   \<and> get_all_tickets (import_ragpipe (s\<lparr>tickets_jsonl := Some (map Record js)\<rparr>)) = Inr []"
  by (simp add: import_ragpipe_def class_body_def get_all_tickets_def read_lines_records
           split: option.split)

text \<open>
  Claim C9, as amended. An absent file reads as the empty list, and a file of complete
  records reads back most recent first. A truncated last line is not discarded:
  \<^verbatim>\<open>json.loads\<close> raises on it and the whole read fails.
\<close>

theorem read_all_complete_lines:
  "get_all_tickets (s\<lparr>tickets_jsonl := None\<rparr>) = Inr []
   \<and> get_all_tickets (s\<lparr>tickets_jsonl := Some (map Record js)\<rparr>) = Inr (rev js)
   \<and> get_all_tickets (s\<lparr>tickets_jsonl := Some (map Record js @ [Truncated])\<rparr>)
       = Inl JSONDecodeError"
  by (simp add: get_all_tickets_def read_lines_records read_lines_unreadable)

text \<open>
  The claim C9 as stated fails: on a log of one complete record followed by a truncated
  line the read raises, where the claim has it return the complete record.
\<close>

theorem read_all_truncated_counterexample:
  "get_all_tickets crashed_log_state = Inl JSONDecodeError
   \<and> get_all_tickets crashed_log_state
       \<noteq> Inr [JObj [(''id'', JStr ''t1''), (''escalate'', JBool True)]]"
  by (simp add: get_all_tickets_def crashed_log_state_def)


section \<open>Properties of ranking and retrieval\<close>

lemma similarity_loop_eq:
  "similarity_loop threshold query vec xs similarities =
     Inr (similarities @
          filter (\<lambda>p. fle threshold (snd p))
            (map (\<lambda>x. (x, projr (calculate_similarity query (vec x)))) xs))"
proof (induction xs arbitrary: similarities)
  case Nil
  then show ?case by simp
next
  case (Cons x xs)
  obtain s where s: "calculate_similarity query (vec x) = Inr s"
    using calculate_similarity_returns by blast
  show ?case by (simp add: s Cons.IH)
qed

lemma py_slice_prefix:
  assumes "0 \<le> n"
  shows "py_slice xs 0 n = take (nat n) xs"
  using py_slice_nonneg[of 0 n xs] assms by simp

subsection \<open>The sort\<close>

lemma set_insert_desc [simp]: "set (insert_desc x ys) = insert x (set ys)"
  by (induction ys) auto

lemma length_insert_desc [simp]: "length (insert_desc x ys) = Suc (length ys)"
  by (induction ys) auto

lemma set_sort_by_similarity [simp]: "set (sort_by_similarity xs) = set xs"
  by (induction xs) (simp_all add: sort_by_similarity_def)

lemma length_sort_by_similarity [simp]: "length (sort_by_similarity xs) = length xs"
  by (induction xs) (simp_all add: sort_by_similarity_def)

lemma sort_by_similarity_Cons:
  "sort_by_similarity (x # xs) = insert_desc x (sort_by_similarity xs)"
  by (simp add: sort_by_similarity_def)

text \<open>
  The sort commutes with a change of the items that leaves the similarities alone.
\<close>

lemma insert_desc_map:
  assumes "\<And>p. snd (g p) = snd p"
  shows "insert_desc (g x) (map g ys) = map g (insert_desc x ys)"
  by (induction ys) (simp_all add: assms)

lemma sort_by_similarity_map:
  assumes "\<And>p. snd (g p) = snd p"
  shows "sort_by_similarity (map g xs) = map g (sort_by_similarity xs)"
  by (induction xs) (simp_all add: sort_by_similarity_Cons insert_desc_map[OF assms]
        sort_by_similarity_def)

text \<open>
  Stability: on items without NaN that carry their position in the input, the sorted
  list is in descending order of similarity and, among equal similarities, in the order
  of the positions.
\<close>

lemma insert_desc_ties:
  fixes x :: "nat \<times> pyfloat"
  assumes "sorted_wrt (\<lambda>a b. flt (snd b) (snd a) \<or> (snd a = snd b \<and> fst a < fst b)) ys"
      and "\<forall>y\<in>set ys. fst x < fst y"
      and "snd x \<noteq> NaN" and "\<forall>y\<in>set ys. snd y \<noteq> NaN"
  shows "sorted_wrt (\<lambda>a b. flt (snd b) (snd a) \<or> (snd a = snd b \<and> fst a < fst b))
           (insert_desc x ys)"
  using assms
proof (induction ys)
  case Nil
  then show ?case by simp
next
  case (Cons y ys)
  show ?case
  proof (cases "flt (snd x) (snd y)")
    case True
    have "sorted_wrt (\<lambda>a b. flt (snd b) (snd a) \<or> (snd a = snd b \<and> fst a < fst b))
            (insert_desc x ys)"
      using Cons by simp
    moreover have "flt (snd z) (snd y) \<or> (snd y = snd z \<and> fst y < fst z)"
      if "z \<in> set (insert_desc x ys)" for z
      using that True Cons.prems(1) by auto
    ultimately show ?thesis using True by simp
  next
    case False
    have xy: "flt (snd y) (snd x) \<or> snd x = snd y"
      using False flt_total[of "snd x" "snd y"] Cons.prems(3,4) by auto
    have "flt (snd z) (snd x) \<or> (snd x = snd z \<and> fst x < fst z)"
      if z: "z \<in> set (y # ys)" for z
    proof (cases "z = y")
      case True
      then show ?thesis using xy Cons.prems(2) by auto
    next
      case False
      then have "z \<in> set ys" using z by simp
      then have "flt (snd z) (snd y) \<or> snd y = snd z" using Cons.prems(1) by auto
      moreover have "fst x < fst z" using Cons.prems(2) z by blast
      ultimately show ?thesis using xy by (auto intro: flt_trans)
    qed
    then show ?thesis using False Cons.prems(1) by simp
  qed
qed

lemma sort_by_similarity_ties:
  fixes xs :: "(nat \<times> pyfloat) list"
  assumes "sorted_wrt (\<lambda>a b. fst a < fst b) xs" and "\<forall>x\<in>set xs. snd x \<noteq> NaN"
  shows "sorted_wrt (\<lambda>a b. flt (snd b) (snd a) \<or> (snd a = snd b \<and> fst a < fst b))
           (sort_by_similarity xs)"
  using assms
proof (induction xs)
  case Nil
  then show ?case by (simp add: sort_by_similarity_def)
next
  case (Cons x xs)
  have "sorted_wrt (\<lambda>a b. flt (snd b) (snd a) \<or> (snd a = snd b \<and> fst a < fst b))
          (sort_by_similarity xs)"
    using Cons by simp
  moreover have "\<forall>y\<in>set (sort_by_similarity xs). fst x < fst y" using Cons.prems(1) by simp
  moreover have "snd x \<noteq> NaN" "\<forall>y\<in>set (sort_by_similarity xs). snd y \<noteq> NaN"
    using Cons.prems(2) by simp_all
  ultimately show ?case
    unfolding sort_by_similarity_Cons by (rule insert_desc_ties)
qed

lemma top_of_sorted:
  assumes "sorted_wrt R ys" and "x \<in> set ys"
  shows "x \<in> set (take n ys) \<or> (length (take n ys) = n \<and> (\<forall>y\<in>set (take n ys). R y x))"
proof -
  obtain j where j: "j < length ys" "ys ! j = x"
    using assms(2) by (auto simp: in_set_conv_nth)
  show ?thesis
  proof (cases "j < n")
    case True
    then have "x \<in> set (take n ys)" using j by (auto simp: in_set_conv_nth)
    then show ?thesis ..
  next
    case False
    then have n: "n \<le> j" by simp
    have "R y x" if "y \<in> set (take n ys)" for y
    proof -
      from that obtain i where "i < length (take n ys)" "take n ys ! i = y"
        by (auto simp: in_set_conv_nth)
      then have i: "i < n" "i < length ys" "ys ! i = y" by simp_all
      then have "i < j" using n by simp
      from sorted_wrt_nth_less[OF assms(1) this j(1)] show ?thesis using i j by simp
    qed
    moreover have "length (take n ys) = n" using n j by simp
    ultimately show ?thesis by blast
  qed
qed

subsection \<open>Ranking by position\<close>

text \<open>
  What the three steps of the source (keep the items at or above the threshold, sort,
  cut to the first \<open>n\<close>) return, told by the positions of the items: the list of the
  picked positions with their similarities is the ranking of the specification.
\<close>

lemma ranking_positions:
  fixes items :: "'a list" and q :: embedding and vec :: "'a \<Rightarrow> embedding"
  defines "sims \<equiv> map (\<lambda>x. projr (calculate_similarity q (vec x))) items"
  shows "\<exists>picks.
           take n (sort_by_similarity
                     (filter (\<lambda>p. fle th (snd p))
                        (map (\<lambda>x. (x, projr (calculate_similarity q (vec x)))) items)))
             = map (\<lambda>p. (items ! fst p, snd p)) picks
           \<and> spec_rank sims th n picks"
proof -
  define pos where "pos = map (\<lambda>i. (i, sims ! i)) [0..<length items]"
  define kept where "kept = filter (\<lambda>p. fle th (snd p)) pos"
  define picks where "picks = take n (sort_by_similarity kept)"
  let ?g = "\<lambda>p :: nat \<times> pyfloat. (items ! fst p, snd p)"
  have len: "length sims = length items" by (simp add: sims_def)
  have "map ?g pos = map (\<lambda>i. (items ! i, projr (calculate_similarity q (vec (items ! i)))))
                        [0..<length items]"
    by (simp add: pos_def sims_def)
  also have "\<dots> = map (\<lambda>x. (x, projr (calculate_similarity q (vec x))))
                    (map (\<lambda>i. items ! i) [0..<length items])"
    by (simp add: o_def)
  also have "\<dots> = map (\<lambda>x. (x, projr (calculate_similarity q (vec x)))) items"
    by (simp add: map_nth)
  finally have scored: "map (\<lambda>x. (x, projr (calculate_similarity q (vec x)))) items = map ?g pos"
    by simp
  have "filter (\<lambda>p. fle th (snd p)) (map ?g pos) = map ?g kept"
    by (simp add: kept_def filter_map o_def)
  then have top: "take n (sort_by_similarity
                     (filter (\<lambda>p. fle th (snd p))
                        (map (\<lambda>x. (x, projr (calculate_similarity q (vec x)))) items)))
             = map ?g picks"
    unfolding scored picks_def by (simp add: sort_by_similarity_map take_map)
  have kept_mem: "p \<in> set kept \<longleftrightarrow> fst p < length items \<and> snd p = sims ! fst p \<and> fle th (snd p)"
    for p
    by (cases p) (auto simp: kept_def pos_def)
  have sub: "set picks \<subseteq> set kept"
    by (auto simp: picks_def dest: in_set_takeD)
  have "sorted_wrt (\<lambda>a b. fst a < fst b) pos"
    by (simp add: pos_def sorted_wrt_map sorted_wrt_upt)
  then have "sorted_wrt (\<lambda>a b. fst a < fst b) kept"
    unfolding kept_def by (rule sorted_wrt_filter)
  moreover have "\<forall>x\<in>set kept. snd x \<noteq> NaN"
    using kept_mem fle_not_NaN by blast
  ultimately have sorted_all:
    "sorted_wrt (\<lambda>a b. flt (snd b) (snd a) \<or> (snd a = snd b \<and> fst a < fst b))
       (sort_by_similarity kept)"
    by (rule sort_by_similarity_ties)
  have s1: "length picks \<le> n" by (simp add: picks_def)
  have s2: "\<forall>p\<in>set picks. fst p < length sims \<and> snd p = sims ! fst p \<and> fle th (snd p)"
    using sub kept_mem len by auto
  have s3: "sorted_wrt (\<lambda>a b. flt (snd b) (snd a) \<or> (snd a = snd b \<and> fst a < fst b)) picks"
    unfolding picks_def using sorted_all by (rule sorted_wrt_take)
  have s4: "(i, sims ! i) \<in> set picks
            \<or> (length picks = n
               \<and> (\<forall>p\<in>set picks. flt (sims ! i) (snd p) \<or> (snd p = sims ! i \<and> fst p < i)))"
    if "i < length sims" and "fle th (sims ! i)" for i
  proof -
    have "(i, sims ! i) \<in> set (sort_by_similarity kept)"
      using that len by (simp add: kept_mem)
    from top_of_sorted[OF sorted_all this, of n]
    show ?thesis unfolding picks_def by auto
  qed
  from s1 s2 s3 s4 have "spec_rank sims th n picks"
    unfolding spec_rank_def by blast
  with top show ?thesis by blast
qed

lemma sims_list_all2:
  "list_all2 (\<lambda>x s. calculate_similarity q (vec x) = Inr s) items
     (map (\<lambda>x. projr (calculate_similarity q (vec x))) items)"
proof -
  have "calculate_similarity q (vec x) = Inr (projr (calculate_similarity q (vec x)))" for x
    using calculate_similarity_returns[of q "vec x"] by auto
  then show ?thesis by (simp add: list_all2_map2 list_all2_same)
qed

lemma spec_rank_descending:
  assumes "spec_rank sims th n picks"
  shows "sorted_wrt (\<lambda>a b. fle (snd b) (snd a)) picks \<and> (\<forall>p\<in>set picks. fle th (snd p))"
proof -
  from assms have mem: "\<forall>p\<in>set picks. fle th (snd p)"
    and srt: "sorted_wrt (\<lambda>a b. flt (snd b) (snd a) \<or> (snd a = snd b \<and> fst a < fst b)) picks"
    unfolding spec_rank_def by blast+
  have step: "fle (snd b) (snd a)"
    if "a \<in> set picks" "b \<in> set picks"
       "flt (snd b) (snd a) \<or> (snd a = snd b \<and> fst a < fst b)" for a b
  proof -
    have "snd a \<noteq> NaN" "snd b \<noteq> NaN" using mem that(1,2) fle_not_NaN by blast+
    then show ?thesis using that(3) by (cases "snd a"; cases "snd b") auto
  qed
  have "sorted_wrt (\<lambda>a b. fle (snd b) (snd a)) picks"
  proof (rule sorted_wrt_mono_rel[OF _ srt])
    fix a b
    assume "a \<in> set picks" "b \<in> set picks"
      and "flt (snd b) (snd a) \<or> (snd a = snd b \<and> fst a < fst b)"
    then show "fle (snd b) (snd a)" by (rule step)
  qed
  with mem show ?thesis by blast
qed


subsection \<open>The rows of the result\<close>

lemma details_loop_found:
  assumes "\<forall>p\<in>set xs. \<exists>row. first (fst p) = Inr (Some row)"
  shows "\<exists>rs. details_loop first xs found = Inr (found @ rs)
           \<and> list_all2 (\<lambda>r p. snd r = snd p \<and> first (fst p) = Inr (Some (fst r))) rs xs"
  using assms
proof (induction xs arbitrary: found)
  case Nil
  then show ?case by simp
next
  case (Cons p xs)
  obtain x s where p: "p = (x, s)" by (cases p)
  from Cons.prems p obtain row where row: "first x = Inr (Some row)" by auto
  from Cons.prems have "\<forall>p\<in>set xs. \<exists>row. first (fst p) = Inr (Some row)" by simp
  from Cons.IH[OF this, of "found @ [(row, s)]"]
  obtain rs where rs: "details_loop first xs (found @ [(row, s)]) = Inr ((found @ [(row, s)]) @ rs)"
    and rel: "list_all2 (\<lambda>r p. snd r = snd p \<and> first (fst p) = Inr (Some (fst r))) rs xs"
    by blast
  have "details_loop first (p # xs) found = Inr (found @ ((row, s) # rs))"
    using rs by (simp add: p row)
  moreover have "list_all2 (\<lambda>r p. snd r = snd p \<and> first (fst p) = Inr (Some (fst r)))
                   ((row, s) # rs) (p # xs)"
    using rel by (simp add: p row)
  ultimately show ?case by blast
qed

lemma list_all2_snd:
  "list_all2 (\<lambda>r p. snd r = snd p \<and> Q r p) rs ps \<Longrightarrow> map snd rs = map snd ps"
  by (induction rs ps rule: list_all2_induct) simp_all

text \<open>
  The join of \<^verbatim>\<open>find_similar_tickets\<close> keeps only the embeddings of a ticket of the
  table, so the lookup of each such ticket finds one.
\<close>

lemma joined_row_has_ticket:
  assumes "query_ticket_embeddings db exclude = Inr rows" and "te \<in> set rows"
  shows "\<exists>t. query_ticket_first db (te_ticket_id te) = Inr (Some t)"
proof -
  from assms(1) have f: "fault db = None"
    by (simp add: query_ticket_embeddings_def split: option.splits)
  from assms f obtain t where "t \<in> set (tickets db)" "te_ticket_id te = Some (t_id t)"
    by (auto simp: query_ticket_embeddings_def list_ex_iff)
  then have "find (\<lambda>t. Some (t_id t) = te_ticket_id te) (tickets db) \<noteq> None"
    by (auto simp: find_None_iff)
  then show ?thesis using f by (auto simp: query_ticket_first_def)
qed

lemma query_ticket_first_find:
  assumes "query_ticket_first db i = Inr (Some t)"
  shows "find (\<lambda>t. Some (t_id t) = i) (tickets db) = Some t"
  using assms by (simp add: query_ticket_first_def split: option.splits)

text \<open>
  \<^verbatim>\<open>find_similar_tickets\<close> when the query is embedded and the rows are read: the
  tickets returned are those of a ranking of the rows, in its order, each with the
  similarity of its row.
\<close>

lemma find_similar_tickets_ranking:
  assumes emb: "generate_embedding model query calls = (Inr q, calls')"
      and rows: "query_ticket_embeddings db exclude = Inr rows"
      and limit: "0 \<le> limit"
  shows "\<exists>picks.
           spec_rank (map (\<lambda>te. projr (calculate_similarity q (te_embedding_vector te))) rows)
             (SIMILARITY_THRESHOLD st) (nat limit) picks
           \<and> list_all2
               (\<lambda>r p. snd r = snd p
                  \<and> find (\<lambda>t. Some (t_id t) = te_ticket_id (rows ! fst p)) (tickets db)
                      = Some (fst r))
               (fst (find_similar_tickets st model db query (Some limit) exclude calls)) picks"
proof -
  let ?sims = "map (\<lambda>te. projr (calculate_similarity q (te_embedding_vector te))) rows"
  let ?top = "take (nat limit) (sort_by_similarity
                (filter (\<lambda>p. fle (SIMILARITY_THRESHOLD st) (snd p))
                   (map (\<lambda>x. (x, projr (calculate_similarity q (te_embedding_vector x)))) rows)))"
  let ?first = "\<lambda>te. query_ticket_first db (te_ticket_id te)"
  from ranking_positions[of "nat limit" "SIMILARITY_THRESHOLD st" q te_embedding_vector rows]
  obtain picks where top: "?top = map (\<lambda>p. (rows ! fst p, snd p)) picks"
    and rank: "spec_rank ?sims (SIMILARITY_THRESHOLD st) (nat limit) picks"
    by blast
  have inrows: "rows ! fst p \<in> set rows" if "p \<in> set picks" for p
    using rank that unfolding spec_rank_def by auto
  have "\<forall>p\<in>set ?top. \<exists>row. ?first (fst p) = Inr (Some row)"
    unfolding top using inrows joined_row_has_ticket[OF rows] by auto
  from details_loop_found[OF this, of "[]"]
  obtain rs where rs: "details_loop ?first ?top [] = Inr rs"
    and rel: "list_all2 (\<lambda>r p. snd r = snd p \<and> ?first (fst p) = Inr (Some (fst r))) rs ?top"
    by auto
  have res: "fst (find_similar_tickets st model db query (Some limit) exclude calls) = rs"
  proof (cases "rows = []")
    case True
    then have "rs = []" using rs by (simp add: sort_by_similarity_def)
    then show ?thesis
      using True by (simp add: find_similar_tickets_def find_similar_tickets_try_def emb rows)
  next
    case False
    then show ?thesis
      using rs limit
      by (simp add: find_similar_tickets_def find_similar_tickets_try_def emb rows
            similarity_loop_eq py_slice_prefix)
  qed
  from rel have "list_all2
        (\<lambda>r p. snd r = snd p \<and> ?first (rows ! fst p) = Inr (Some (fst r))) rs picks"
    unfolding top by (simp add: list_all2_map2)
  then have "list_all2
        (\<lambda>r p. snd r = snd p
           \<and> find (\<lambda>t. Some (t_id t) = te_ticket_id (rows ! fst p)) (tickets db) = Some (fst r))
        rs picks"
    by (rule list_all2_mono) (auto dest: query_ticket_first_find)
  with rank res show ?thesis by auto
qed

lemma find_similar_tickets_cases:
  "fst (find_similar_tickets st model db query limit exclude calls) = []
   \<or> (\<exists>q calls' rows. generate_embedding model query calls = (Inr q, calls')
        \<and> query_ticket_embeddings db exclude = Inr rows)"
  by (auto simp: find_similar_tickets_def find_similar_tickets_try_def Let_def
        split: prod.splits sum.splits)

lemma find_similar_tickets_ranked:
  assumes "0 \<le> limit"
  shows "int (length (fst (find_similar_tickets st model db query (Some limit) exclude calls)))
           \<le> limit
     \<and> (\<forall>x\<in>set (fst (find_similar_tickets st model db query (Some limit) exclude calls)).
           fle (SIMILARITY_THRESHOLD st) (snd x))
     \<and> sorted_wrt (\<lambda>a b. fle (snd b) (snd a))
           (fst (find_similar_tickets st model db query (Some limit) exclude calls))"
proof -
  let ?res = "fst (find_similar_tickets st model db query (Some limit) exclude calls)"
  from find_similar_tickets_cases[of st model db query "Some limit" exclude calls]
  show ?thesis
  proof
    assume "?res = []"
    then show ?thesis using assms by simp
  next
    assume "\<exists>q calls' rows. generate_embedding model query calls = (Inr q, calls')
        \<and> query_ticket_embeddings db exclude = Inr rows"
    then obtain q calls' rows where "generate_embedding model query calls = (Inr q, calls')"
      and "query_ticket_embeddings db exclude = Inr rows" by blast
    from find_similar_tickets_ranking[OF this assms, of st]
    obtain picks sims where rank: "spec_rank sims (SIMILARITY_THRESHOLD st) (nat limit) picks"
      and rel: "list_all2
               (\<lambda>r p. snd r = snd p
                  \<and> find (\<lambda>t. Some (t_id t) = te_ticket_id (rows ! fst p)) (tickets db)
                      = Some (fst r)) ?res picks"
      by blast
    from rel have snds: "map snd ?res = map snd picks" by (rule list_all2_snd)
    from rank have "length picks \<le> nat limit" unfolding spec_rank_def by blast
    moreover have "length ?res = length picks" using rel by (rule list_all2_lengthD)
    ultimately have a: "int (length ?res) \<le> limit" using assms by simp
    from spec_rank_descending[OF rank]
    have "sorted_wrt (\<lambda>a b. fle b a) (map snd picks)"
      and "\<forall>s\<in>set (map snd picks). fle (SIMILARITY_THRESHOLD st) s"
      by (simp_all add: sorted_wrt_map)
    then have "sorted_wrt (\<lambda>a b. fle b a) (map snd ?res)"
      and "\<forall>s\<in>set (map snd ?res). fle (SIMILARITY_THRESHOLD st) s"
      unfolding snds by simp_all
    then have "sorted_wrt (\<lambda>a b. fle (snd b) (snd a)) ?res"
      and "\<forall>x\<in>set ?res. fle (SIMILARITY_THRESHOLD st) (snd x)"
      by (simp_all add: sorted_wrt_map)
    with a show ?thesis by blast
  qed
qed

text \<open>\<^verbatim>\<open>find_most_similar\<close> returns the ranking of the candidates.\<close>

lemma find_most_similar_ranking:
  assumes "0 \<le> MAX_RETRIEVED_DOCS st"
  shows "\<exists>picks.
           spec_rank (map (\<lambda>c. projr (calculate_similarity q c)) candidates)
             (case threshold of None \<Rightarrow> SIMILARITY_THRESHOLD st | Some t \<Rightarrow> t)
             (nat (MAX_RETRIEVED_DOCS st)) picks
           \<and> find_most_similar st q candidates threshold
               = Inr (map (\<lambda>p. ((fst p, candidates ! fst p), snd p)) picks)"
proof -
  define th where "th = (case threshold of None \<Rightarrow> SIMILARITY_THRESHOLD st | Some t \<Rightarrow> t)"
  let ?items = "enumerate 0 candidates"
  have sims: "map (\<lambda>x. projr (calculate_similarity q (snd x))) ?items
              = map (\<lambda>c. projr (calculate_similarity q c)) candidates"
  proof -
    have "map (\<lambda>x. projr (calculate_similarity q (snd x))) ?items
          = map (\<lambda>c. projr (calculate_similarity q c)) (map snd ?items)"
      by (simp only: map_map o_def)
    then show ?thesis by (simp only: map_snd_enumerate)
  qed
  from ranking_positions[of "nat (MAX_RETRIEVED_DOCS st)" th q snd ?items]
  obtain picks where
    top: "take (nat (MAX_RETRIEVED_DOCS st)) (sort_by_similarity
            (filter (\<lambda>p. fle th (snd p))
               (map (\<lambda>x. (x, projr (calculate_similarity q (snd x)))) ?items)))
          = map (\<lambda>p. (?items ! fst p, snd p)) picks"
    and rank: "spec_rank (map (\<lambda>c. projr (calculate_similarity q c)) candidates) th
                 (nat (MAX_RETRIEVED_DOCS st)) picks"
    unfolding sims by blast
  have "?items ! fst p = (fst p, candidates ! fst p)" if "p \<in> set picks" for p
  proof -
    have "fst p < length candidates" using rank that unfolding spec_rank_def by auto
    then show ?thesis by (simp add: nth_enumerate_eq)
  qed
  then have "map (\<lambda>p. (?items ! fst p, snd p)) picks
             = map (\<lambda>p. ((fst p, candidates ! fst p), snd p)) picks"
    by simp
  with top have "find_most_similar st q candidates threshold
               = Inr (map (\<lambda>p. ((fst p, candidates ! fst p), snd p)) picks)"
    using assms
    by (simp add: find_most_similar_def similarity_loop_eq py_slice_prefix th_def)
  with rank show ?thesis unfolding th_def by blast
qed

text \<open>The retrieval of the example session, evaluated.\<close>

lemma find_similar_tickets_example:
  "fst (find_similar_tickets default_settings (Some constant_model) example_session
          ''charged twice'' (Some 2) None [])
   = [(example_ticket, Fin 1), (other_ticket, Fin 1)]"
  by (simp add: find_similar_tickets_def find_similar_tickets_try_def generate_embedding_def
        constant_model_def example_session_def query_ticket_embeddings_def
        query_ticket_first_def default_settings_def calculate_similarity_def
        calculate_similarity_try_def np_dot_def dot_sum_def np_linalg_norm_def
        sort_by_similarity_def py_slice_def example_ticket_def other_ticket_def)

lemma find_most_similar_example:
  "find_most_similar default_settings [Fin 1, Fin 0]
      [[Fin 1, Fin 0], [Fin 0, Fin 1], [Fin 1, Fin 0]] None
   = Inr [((0, [Fin 1, Fin 0]), Fin 1), ((2, [Fin 1, Fin 0]), Fin 1)]"
  by (simp add: find_most_similar_def default_settings_def calculate_similarity_def
        calculate_similarity_try_def np_dot_def dot_sum_def np_linalg_norm_def
        sort_by_similarity_def py_slice_def)

text \<open>
  Claim C3, as amended: for a limit that is not negative. \<^verbatim>\<open>find_most_similar\<close>, whose limit is
  \<^verbatim>\<open>settings.MAX_RETRIEVED_DOCS\<close>, always returns, and \<^verbatim>\<open>find_similar_tickets\<close>
  with a limit returns, whenever the query is embedded and the rows are read, the ranking
  \<open>spec_rank\<close> of the specification: with \<open>sims\<close> the similarities of the candidates (of
  the rows) to the query, in their order, the result is made of the positions \<open>picks\<close>,
  each with its similarity (and, for \<^verbatim>\<open>find_similar_tickets\<close>, the ticket of the row at
  that position); there are at most \<open>limit\<close> of them; each meets the threshold; they
  are in descending order of similarity, and in the order of the candidates among equal
  similarities; and a candidate that meets the threshold is left out only when the result
  is full and each of its items is either more similar or as similar and earlier. In every
  case, also when the embedding or the database fails, \<^verbatim>\<open>find_similar_tickets\<close> returns
  at most \<open>limit\<close> items, each with a similarity that meets
  \<^verbatim>\<open>settings.SIMILARITY_THRESHOLD\<close>, in descending order of similarity.
\<close>

theorem rank_contract:
  assumes "0 \<le> limit"
  shows "(0 \<le> MAX_RETRIEVED_DOCS st \<longrightarrow>
            (\<exists>sims picks.
               list_all2 (\<lambda>c s. calculate_similarity query_embedding c = Inr s) candidates sims
               \<and> spec_rank sims
                   (case threshold of None \<Rightarrow> SIMILARITY_THRESHOLD st | Some t \<Rightarrow> t)
                   (nat (MAX_RETRIEVED_DOCS st)) picks
               \<and> find_most_similar st query_embedding candidates threshold
                   = Inr (map (\<lambda>p. ((fst p, candidates ! fst p), snd p)) picks)))
     \<and> (\<forall>q calls' rows.
           generate_embedding model query calls = (Inr q, calls')
           \<and> query_ticket_embeddings db exclude = Inr rows
           \<longrightarrow> (\<exists>sims picks.
                  list_all2 (\<lambda>te s. calculate_similarity q (te_embedding_vector te) = Inr s)
                    rows sims
                  \<and> spec_rank sims (SIMILARITY_THRESHOLD st) (nat limit) picks
                  \<and> list_all2
                      (\<lambda>r p. snd r = snd p
                         \<and> find (\<lambda>t. Some (t_id t) = te_ticket_id (rows ! fst p)) (tickets db)
                             = Some (fst r))
                      (fst (find_similar_tickets st model db query (Some limit) exclude calls))
                      picks))
     \<and> int (length (fst (find_similar_tickets st model db query (Some limit) exclude calls)))
           \<le> limit
     \<and> (\<forall>x\<in>set (fst (find_similar_tickets st model db query (Some limit) exclude calls)).
           fle (SIMILARITY_THRESHOLD st) (snd x))
     \<and> sorted_wrt (\<lambda>a b. fle (snd b) (snd a))
           (fst (find_similar_tickets st model db query (Some limit) exclude calls))"
proof -
  have a: "\<exists>sims picks.
               list_all2 (\<lambda>c s. calculate_similarity query_embedding c = Inr s) candidates sims
               \<and> spec_rank sims
                   (case threshold of None \<Rightarrow> SIMILARITY_THRESHOLD st | Some t \<Rightarrow> t)
                   (nat (MAX_RETRIEVED_DOCS st)) picks
               \<and> find_most_similar st query_embedding candidates threshold
                   = Inr (map (\<lambda>p. ((fst p, candidates ! fst p), snd p)) picks)"
    if "0 \<le> MAX_RETRIEVED_DOCS st"
    using find_most_similar_ranking[OF that, of query_embedding candidates threshold]
      sims_list_all2[of query_embedding "\<lambda>c. c" candidates]
    by blast
  have b: "\<exists>sims picks.
                  list_all2 (\<lambda>te s. calculate_similarity q (te_embedding_vector te) = Inr s)
                    rows sims
                  \<and> spec_rank sims (SIMILARITY_THRESHOLD st) (nat limit) picks
                  \<and> list_all2
                      (\<lambda>r p. snd r = snd p
                         \<and> find (\<lambda>t. Some (t_id t) = te_ticket_id (rows ! fst p)) (tickets db)
                             = Some (fst r))
                      (fst (find_similar_tickets st model db query (Some limit) exclude calls))
                      picks"
    if "generate_embedding model query calls = (Inr q, calls')"
      and "query_ticket_embeddings db exclude = Inr rows" for q calls' rows
    using find_similar_tickets_ranking[OF that assms, of st]
      sims_list_all2[of q te_embedding_vector rows]
    by blast
  from a b find_similar_tickets_ranked[OF assms, of st model db query exclude calls]
  show ?thesis by blast
qed

theorem rank_contract_witness:
  "(0::int) \<le> 1 \<and> 0 \<le> MAX_RETRIEVED_DOCS default_settings
   \<and> generate_embedding (Some constant_model) ''charged twice'' []
       = (Inr [Fin 1, Fin 0], [''charged twice''])
   \<and> query_ticket_embeddings example_session None = Inr (ticket_embeddings example_session)
   \<and> find_most_similar default_settings [Fin 1, Fin 0]
       [[Fin 1, Fin 0], [Fin 0, Fin 1], [Fin 1, Fin 0]] None
       = Inr [((0, [Fin 1, Fin 0]), Fin 1), ((2, [Fin 1, Fin 0]), Fin 1)]
   \<and> fst (find_similar_tickets default_settings (Some constant_model) example_session
            ''charged twice'' (Some 1) None []) = [(example_ticket, Fin 1)]
   \<and> spec_rank [Fin 1, Fin 0, Fin 1] (Fin (7 / 10)) 1 [(0, Fin 1)]"
proof -
  have a: "(0::int) \<le> 1" by simp
  have b: "0 \<le> MAX_RETRIEVED_DOCS default_settings" by (simp add: default_settings_def)
  have c: "generate_embedding (Some constant_model) ''charged twice'' []
       = (Inr [Fin 1, Fin 0], [''charged twice''])"
    by (simp add: generate_embedding_def constant_model_def)
  have d: "query_ticket_embeddings example_session None
           = Inr (ticket_embeddings example_session)"
    by (simp add: query_ticket_embeddings_def example_session_def example_ticket_def
          other_ticket_def)
  have e: "fst (find_similar_tickets default_settings (Some constant_model) example_session
            ''charged twice'' (Some 1) None []) = [(example_ticket, Fin 1)]"
    by (simp add: find_similar_tickets_def find_similar_tickets_try_def generate_embedding_def
        constant_model_def example_session_def query_ticket_embeddings_def
        query_ticket_first_def default_settings_def calculate_similarity_def
        calculate_similarity_try_def np_dot_def dot_sum_def np_linalg_norm_def
        sort_by_similarity_def py_slice_def example_ticket_def other_ticket_def)
  have sims: "list_all2 (\<lambda>te s. calculate_similarity [Fin 1, Fin 0] (te_embedding_vector te) = Inr s)
                (ticket_embeddings example_session) sims
              \<Longrightarrow> sims = [Fin 1, Fin 0, Fin 1]" for sims
    by (auto simp: example_session_def list_all2_Cons1 calculate_similarity_def
          calculate_similarity_try_def np_dot_def dot_sum_def np_linalg_norm_def)
  have row: "find (\<lambda>t. Some (t_id t) = te_ticket_id (ticket_embeddings example_session ! i))
               (tickets example_session) = Some example_ticket \<Longrightarrow> i < 3 \<Longrightarrow> i = 0" for i
  proof -
    assume f: "find (\<lambda>t. Some (t_id t) = te_ticket_id (ticket_embeddings example_session ! i))
               (tickets example_session) = Some example_ticket" and "i < 3"
    then consider "i = 0" | "i = 1" | "i = 2" by linarith
    then show "i = 0"
      using f by cases (simp_all add: example_session_def example_ticket_def other_ticket_def)
  qed
  from rank_contract [OF a, of default_settings "[Fin 1, Fin 0]"
         "[[Fin 1, Fin 0], [Fin 0, Fin 1], [Fin 1, Fin 0]]" None "Some constant_model"
         "''charged twice''" "[]" example_session None] c d
  obtain sims picks where
    "list_all2 (\<lambda>te s. calculate_similarity [Fin 1, Fin 0] (te_embedding_vector te) = Inr s)
       (ticket_embeddings example_session) sims"
    and "spec_rank sims (SIMILARITY_THRESHOLD default_settings) (nat 1) picks"
    and "list_all2
             (\<lambda>r p. snd r = snd p
                \<and> find (\<lambda>t. Some (t_id t) = te_ticket_id (ticket_embeddings example_session ! fst p))
                     (tickets example_session) = Some (fst r))
             (fst (find_similar_tickets default_settings (Some constant_model) example_session
                     ''charged twice'' (Some 1) None [])) picks"
    by blast
  then have rank: "spec_rank [Fin 1, Fin 0, Fin 1] (Fin (7 / 10)) 1 picks"
    and rel: "list_all2
             (\<lambda>r p. snd r = snd p
                \<and> find (\<lambda>t. Some (t_id t) = te_ticket_id (ticket_embeddings example_session ! fst p))
                     (tickets example_session) = Some (fst r))
             [(example_ticket, Fin 1)] picks"
    using sims e by (auto simp: default_settings_def)
  from rel obtain p where picks: "picks = [p]" and s: "snd p = Fin 1"
    and t: "find (\<lambda>t. Some (t_id t) = te_ticket_id (ticket_embeddings example_session ! fst p))
                     (tickets example_session) = Some example_ticket"
    by (auto simp: list_all2_Cons1)
  have "fst p < 3" using rank unfolding spec_rank_def picks by simp
  from row[OF t this] s have "p = (0, Fin 1)" by (simp add: prod_eq_iff)
  with rank picks have f: "spec_rank [Fin 1, Fin 0, Fin 1] (Fin (7 / 10)) 1 [(0, Fin 1)]"
    by simp
  from a b c d e f find_most_similar_example show ?thesis by blast
qed

text \<open>
  The claim C3 as stated, for every limit, fails for a negative one, which the route
  \<^verbatim>\<open>get_similar_tickets\<close> passes on unchecked: the slice
  \<^verbatim>\<open>similarities[:-1]\<close> drops the last item instead of keeping none, and the call
  returns one item, more than the limit \<open>-1\<close>.
\<close>

theorem rank_negative_limit_counterexample:
  "fst (find_similar_tickets default_settings (Some constant_model) example_session
          ''charged twice'' (Some (- 1)) None []) = [(example_ticket, Fin 1)]
   \<and> \<not> int (length [(example_ticket, Fin 1)]) \<le> - 1"
  by (simp add: find_similar_tickets_def find_similar_tickets_try_def generate_embedding_def
        constant_model_def example_session_def query_ticket_embeddings_def
        query_ticket_first_def default_settings_def calculate_similarity_def
        calculate_similarity_try_def np_dot_def dot_sum_def np_linalg_norm_def
        sort_by_similarity_def py_slice_def example_ticket_def other_ticket_def)


section \<open>Properties of the hybrid search\<close>

text \<open>
  Each of the two searches calls the embedding provider once with the query, and its
  results do not depend on the calls made before.
\<close>

lemma generate_embedding_trace:
  "generate_embedding model text calls = (fst (generate_embedding model text []), calls @ [text])"
  by (simp add: generate_embedding_def split: option.split)

lemma find_similar_tickets_trace:
  "find_similar_tickets st model db query limit exclude calls =
     (fst (find_similar_tickets st model db query limit exclude []), calls @ [query])"
proof -
  obtain emb where e: "fst (generate_embedding model query []) = emb" by blast
  have g: "generate_embedding model query calls = (emb, calls @ [query])"
    "generate_embedding model query [] = (emb, [query])"
    using generate_embedding_trace[of model query calls] generate_embedding_trace[of model query "[]"] e
    by simp_all
  show ?thesis
    by (simp add: find_similar_tickets_def find_similar_tickets_try_def g Let_def
          split: sum.split)
qed

lemma find_relevant_knowledge_trace:
  "find_relevant_knowledge st model db query limit category calls =
     (fst (find_relevant_knowledge st model db query limit category []), calls @ [query])"
proof -
  obtain emb where e: "fst (generate_embedding model query []) = emb" by blast
  have g: "generate_embedding model query calls = (emb, calls @ [query])"
    "generate_embedding model query [] = (emb, [query])"
    using generate_embedding_trace[of model query calls] generate_embedding_trace[of model query "[]"] e
    by simp_all
  show ?thesis
    by (simp add: find_relevant_knowledge_def find_relevant_knowledge_try_def g Let_def
          split: sum.split)
qed

text \<open>
  Every ticket found is the ticket of a row that passed the filter of the query, so a
  truthy \<^verbatim>\<open>exclude_ticket_id\<close> is never the id of a ticket found.
\<close>

lemma details_loop_rows:
  assumes "details_loop first xs found = Inr r" and "p \<in> set r"
  shows "p \<in> set found \<or> (\<exists>x. (x, snd p) \<in> set xs \<and> first x = Inr (Some (fst p)))"
  using assms
proof (induction xs arbitrary: found)
  case Nil
  then show ?case by simp
next
  case (Cons q xs)
  obtain x s where q: "q = (x, s)" by (cases q)
  show ?case
  proof (cases "first x")
    case (Inl e)
    then show ?thesis using Cons.prems q by simp
  next
    case (Inr row)
    show ?thesis
    proof (cases row)
      case None
      then have "details_loop first xs found = Inr r" using Cons.prems q Inr by simp
      from Cons.IH[OF this Cons.prems(2)] show ?thesis by auto
    next
      case (Some t)
      then have "details_loop first xs (found @ [(t, s)]) = Inr r"
        using Cons.prems q Inr by simp
      from Cons.IH[OF this Cons.prems(2)] show ?thesis using q Inr Some by auto
    qed
  qed
qed

lemma find_similar_tickets_excludes:
  assumes "truthy_int exclude"
      and "p \<in> set (fst (find_similar_tickets st model db query limit exclude calls))"
  shows "Some (t_id (fst p)) \<noteq> exclude"
proof -
  define lim where "lim = (case limit of None \<Rightarrow> MAX_RETRIEVED_DOCS st | Some l \<Rightarrow> l)"
  obtain res c1 where t: "find_similar_tickets_try st model db query lim exclude calls = (res, c1)"
    by (cases "find_similar_tickets_try st model db query lim exclude calls")
  obtain emb c2 where g: "generate_embedding model query calls = (emb, c2)"
    by (cases "generate_embedding model query calls")
  show ?thesis
  proof (cases res)
    case (Inl e)
    then show ?thesis using assms(2) t by (simp add: find_similar_tickets_def lim_def)
  next
    case (Inr r)
    then have p: "p \<in> set r" using assms(2) t by (simp add: find_similar_tickets_def lim_def)
    show ?thesis
    proof (cases emb)
      case (Inl e)
      then show ?thesis using t g Inr by (simp add: find_similar_tickets_try_def)
    next
      case q: (Inr q)
      show ?thesis
      proof (cases "query_ticket_embeddings db exclude")
        case (Inl e)
        then show ?thesis using t g q Inr by (simp add: find_similar_tickets_try_def)
      next
        case rows: (Inr rows)
        show ?thesis
        proof (cases "rows = []")
          case True
          then show ?thesis using t g q rows Inr p by (simp add: find_similar_tickets_try_def)
        next
          case False
          show ?thesis
          proof (cases "similarity_loop (SIMILARITY_THRESHOLD st) q te_embedding_vector rows []")
            case (Inl e)
            then show ?thesis using t g q rows False Inr
              by (simp add: find_similar_tickets_try_def)
          next
            case sims: (Inr sims)
            have d: "details_loop (\<lambda>te. query_ticket_first db (te_ticket_id te))
                    (py_slice (sort_by_similarity sims) 0 lim) [] = Inr r"
              using t g q rows False sims Inr by (simp add: find_similar_tickets_try_def)
            from details_loop_rows[OF d p] obtain te where
              te: "(te, snd p) \<in> set (py_slice (sort_by_similarity sims) 0 lim)"
              and f: "query_ticket_first db (te_ticket_id te) = Inr (Some (fst p))"
              by auto
            from te have "(te, snd p) \<in> set sims"
              by (auto simp: py_slice_def Let_def dest!: in_set_takeD in_set_dropD)
            then have "te \<in> set rows" using sims by (auto simp: similarity_loop_eq)
            then have "list_ex (\<lambda>t. te_ticket_id te = Some (t_id t)
                          \<and> Some (t_id t) \<noteq> exclude) (tickets db)"
              using rows assms(1)
              by (auto simp: query_ticket_embeddings_def split: option.splits)
            then obtain t' :: ticket
              where "te_ticket_id te = Some (t_id t')" "Some (t_id t') \<noteq> exclude"
              unfolding list_ex_iff by blast
            moreover have "Some (t_id (fst p)) = te_ticket_id te"
              using f by (auto simp: query_ticket_first_def find_Some_iff split: option.splits)
            ultimately show ?thesis by simp
          qed
        qed
      qed
    qed
  qed
qed

text \<open>
  Claim C7, as amended. \<^verbatim>\<open>hybrid_search\<close> gives the ticket search the budget
  \<open>limit // 2\<close> and the knowledge search the rest of the limit (the limit defaults to
  \<^verbatim>\<open>settings.MAX_RETRIEVED_DOCS\<close>); the two searches are independent of each other,
  only the ticket search is given \<^verbatim>\<open>exclude_ticket_id\<close>, and a truthy excluded id
  is the id of no ticket returned; the result holds both lists and the sum of their
  lengths. The query text is embedded twice, once by each search.
\<close>

theorem hybrid_search_contract:
  "hybrid_search st model db query limit exclude_ticket_id calls =
     (let total_limit = (case limit of None \<Rightarrow> MAX_RETRIEVED_DOCS st | Some l \<Rightarrow> l);
          found_tickets =
            fst (find_similar_tickets st model db query (Some (total_limit div 2))
                   exclude_ticket_id []);
          found_knowledge =
            fst (find_relevant_knowledge st model db query
                   (Some (total_limit - total_limit div 2)) None [])
      in (\<lparr>similar_tickets = found_tickets, relevant_knowledge = found_knowledge,
           total_results = length found_tickets + length found_knowledge\<rparr>,
          calls @ [query, query]))
   \<and> (truthy_int exclude_ticket_id \<longrightarrow>
        (\<forall>p\<in>set (similar_tickets
                    (fst (hybrid_search st model db query limit exclude_ticket_id calls))).
           Some (t_id (fst p)) \<noteq> exclude_ticket_id))"
proof -
  define total_limit where
    "total_limit = (case limit of None \<Rightarrow> MAX_RETRIEVED_DOCS st | Some l \<Rightarrow> l)"
  have t: "find_similar_tickets st model db query (Some (total_limit div 2)) exclude_ticket_id calls
      = (fst (find_similar_tickets st model db query (Some (total_limit div 2))
                exclude_ticket_id []), calls @ [query])"
    by (rule find_similar_tickets_trace)
  have k: "find_relevant_knowledge st model db query (Some (total_limit - total_limit div 2)) None
             (calls @ [query])
      = (fst (find_relevant_knowledge st model db query
                (Some (total_limit - total_limit div 2)) None []), (calls @ [query]) @ [query])"
    by (rule find_relevant_knowledge_trace)
  have eq: "hybrid_search st model db query limit exclude_ticket_id calls =
     (let total_limit = (case limit of None \<Rightarrow> MAX_RETRIEVED_DOCS st | Some l \<Rightarrow> l);
          found_tickets =
            fst (find_similar_tickets st model db query (Some (total_limit div 2))
                   exclude_ticket_id []);
          found_knowledge =
            fst (find_relevant_knowledge st model db query
                   (Some (total_limit - total_limit div 2)) None [])
      in (\<lparr>similar_tickets = found_tickets, relevant_knowledge = found_knowledge,
           total_results = length found_tickets + length found_knowledge\<rparr>,
          calls @ [query, query]))"
    unfolding hybrid_search_def Let_def total_limit_def[symmetric] by (simp add: t k)
  have "similar_tickets (fst (hybrid_search st model db query limit exclude_ticket_id calls))
        = fst (find_similar_tickets st model db query (Some (total_limit div 2))
                 exclude_ticket_id [])"
    unfolding eq Let_def total_limit_def by simp
  then have ex: "truthy_int exclude_ticket_id \<longrightarrow>
        (\<forall>p\<in>set (similar_tickets
                    (fst (hybrid_search st model db query limit exclude_ticket_id calls))).
           Some (t_id (fst p)) \<noteq> exclude_ticket_id)"
    using find_similar_tickets_excludes by auto
  from eq ex show ?thesis by blast
qed

lemma hybrid_search_example:
  "fst (hybrid_search default_settings (Some constant_model) example_session
          ''charged twice'' None (Some 1) [])
   = \<lparr>similar_tickets = [(other_ticket, Fin 1)],
      relevant_knowledge = [(example_knowledge, Fin 1)],
      total_results = 2\<rparr>"
  by (simp add: hybrid_search_def find_similar_tickets_def find_similar_tickets_try_def
        find_relevant_knowledge_def find_relevant_knowledge_try_def
        generate_embedding_def
        constant_model_def example_session_def query_ticket_embeddings_def
        query_ticket_first_def query_knowledge_embeddings_def query_knowledge_first_def
        default_settings_def calculate_similarity_def
        calculate_similarity_try_def np_dot_def dot_sum_def np_linalg_norm_def
        sort_by_similarity_def
        py_slice_def example_ticket_def other_ticket_def example_knowledge_def)

theorem hybrid_search_contract_witness:
  "truthy_int (Some 1)
   \<and> fst (hybrid_search default_settings (Some constant_model) example_session
            ''charged twice'' None (Some 1) [])
       = \<lparr>similar_tickets = [(other_ticket, Fin 1)],
          relevant_knowledge = [(example_knowledge, Fin 1)],
          total_results = 2\<rparr>
   \<and> snd (hybrid_search default_settings (Some constant_model) example_session
            ''charged twice'' None (Some 1) []) = [''charged twice'', ''charged twice'']
   \<and> Some (t_id other_ticket) \<noteq> Some 1"
proof -
  have a: "truthy_int (Some 1)" by simp
  note c = hybrid_search_contract [of default_settings "Some constant_model" example_session
         "''charged twice''" None "Some 1" "[]"]
  from c have "snd (hybrid_search default_settings (Some constant_model) example_session
            ''charged twice'' None (Some 1) []) = [''charged twice'', ''charged twice'']"
    by (simp add: Let_def)
  moreover from c a hybrid_search_example have "Some (t_id other_ticket) \<noteq> Some 1"
    by simp
  ultimately show ?thesis using a hybrid_search_example by simp
qed

text \<open>
  The claim C7 as stated fails in one point: the query is not embedded exactly once. One
  hybrid search from an empty trace leaves two calls of the embedding provider.
\<close>

theorem hybrid_search_embeds_twice_counterexample:
  "snd (hybrid_search default_settings (Some constant_model) example_session
          ''charged twice'' None (Some 1) []) = [''charged twice'', ''charged twice'']
   \<and> length (snd (hybrid_search default_settings (Some constant_model) example_session
          ''charged twice'' None (Some 1) [])) \<noteq> 1"
  by (simp add: hybrid_search_def find_similar_tickets_def find_similar_tickets_try_def
        find_relevant_knowledge_def find_relevant_knowledge_try_def generate_embedding_def
        constant_model_def Let_def split: sum.split prod.split)

end
